theory Spec2Isabelle
  imports Complex_Main "HOL-Library.Sublist"
begin

section \<open>Data model\<close>

text \<open>
  Course and section identifiers are Python strings.  Dictionaries that the code iterates
  are association lists in insertion order (their keys are distinct, which the theorems
  assume where it matters); lookups go through \<open>map_of\<close>.
\<close>

type_synonym did = string
type_synonym tid = string

text \<open>One entry of \<open>dados.disciplinas\<close>: the dictionary of a course.  The key
  \<open>tipo\<close> is read with \<open>.get\<close> and may be absent; \<open>prerequisitos\<close> is read with
  \<open>.get('prerequisitos', [])\<close>, so an absent key is the empty list.\<close>

record disc =
  nome :: string
  creditos :: int
  tipo :: "string option"
  prerequisitos :: "did list"

text \<open>\<open>models/grade.py\<close>, class \<open>DadosDisciplinas\<close> (the backend reads the same keys from a
  dictionary).\<close>

record DadosDisciplinas =
  disciplinas :: "(did \<times> disc) list"
  turmas_por_disciplina :: "(did \<times> tid list) list"
  horarios_por_turma :: "(tid \<times> string list) list"
  periodos_validos_por_disciplina :: "(did \<times> int list) list"
  obrigatorias_ids :: "did list"
  restritas_ids :: "did list"
  condicionadas_ids :: "did list"
  livres_ids :: "did list"

definition optativas_ids :: "DadosDisciplinas \<Rightarrow> did list" where
  "optativas_ids d = restritas_ids d @ condicionadas_ids d @ livres_ids d"

text \<open>The dictionary \<open>creditos_minimos\<close> with its three fixed keys.\<close>

record creditos_tipo =
  restrita :: int
  condicionada :: int
  livre :: int

text \<open>\<open>services/optimizer.py\<close>, class \<open>OptimizerConfig\<close> (the solver timeout plays no
  part in the model that is built).\<close>

record OptimizerConfig =
  dados :: DadosDisciplinas
  todas_disciplinas_info :: "(did \<times> disc) list"
  creditos_minimos :: creditos_tipo
  creditos_maximos_por_semestre :: int
  disciplinas_concluidas_ids :: "did list"
  semestre_inicio :: int
  total_creditos_curso :: int
  num_semestres_total :: int

text \<open>\<open>d.get(k, [])\<close> on a dictionary of lists.\<close>

definition get_list :: "('k \<times> 'v list) list \<Rightarrow> 'k \<Rightarrow> 'v list" where
  "get_list m k = (case map_of m k of None \<Rightarrow> [] | Some v \<Rightarrow> v)"

text \<open>\<open>k in d\<close> on a dictionary.\<close>

definition has_key :: "('k \<times> 'v) list \<Rightarrow> 'k \<Rightarrow> bool" where
  "has_key m k = (k \<in> set (map fst m))"

text \<open>Assigning to a key of a dictionary whose values are determined by the key (the
  decision variables): a key that is already there keeps its place, a new one goes last.\<close>

definition dict_set :: "'k \<Rightarrow> 'k list \<Rightarrow> 'k list" where
  "dict_set k ks = (if k \<in> set ks then ks else ks @ [k])"

definition dict_keys :: "'k list \<Rightarrow> 'k list" where
  "dict_keys xs = fold dict_set xs []"

section \<open>The linear model handed to the solver\<close>

text \<open>
  Decision variables are identified by the key under which the builder stores them:
  \<open>alocacao[(d, s, t)]\<close>, \<open>semestre_da_disciplina[d]\<close>, the constant-zero variables
  \<open>cursada_d\<close> and \<open>creditos_s\<close> of the services builder, and \<open>semestre_maximo\<close>.
\<close>

datatype var =
    Alocacao did int tid
  | Semestre did
  | Cursada did
  | CreditosS int
  | SemestreMaximo

text \<open>Linear expressions as the Python operators build them.  Constants are rationals:
  the backend's \<open>total_disciplinas / 2.0\<close> is the only one that is not an integer.\<close>

datatype lexpr =
    Const rat
  | Var var
  | Mul rat lexpr
  | Add lexpr lexpr
  | Sub lexpr lexpr
  | Sum "lexpr list"

datatype cmp = EQ | LE | GE

datatype constr = Constr lexpr cmp lexpr

text \<open>A solution gives every variable an integer (all variables of both builders are
  \<open>BoolVar\<close> or \<open>IntVar\<close>).\<close>

type_synonym solution = "var \<Rightarrow> int"

fun eval :: "solution \<Rightarrow> lexpr \<Rightarrow> rat" where
  "eval \<sigma> (Const c) = c"
| "eval \<sigma> (Var v) = of_int (\<sigma> v)"
| "eval \<sigma> (Mul c e) = c * eval \<sigma> e"
| "eval \<sigma> (Add a b) = eval \<sigma> a + eval \<sigma> b"
| "eval \<sigma> (Sub a b) = eval \<sigma> a - eval \<sigma> b"
| "eval \<sigma> (Sum es) = sum_list (map (eval \<sigma>) es)"

fun holds :: "solution \<Rightarrow> constr \<Rightarrow> bool" where
  "holds \<sigma> (Constr l EQ r) = (eval \<sigma> l = eval \<sigma> r)"
| "holds \<sigma> (Constr l LE r) = (eval \<sigma> l \<le> eval \<sigma> r)"
| "holds \<sigma> (Constr l GE r) = (eval \<sigma> l \<ge> eval \<sigma> r)"

text \<open>The state of the solver object after the builder has run: the declared variables
  with their bounds (\<open>BoolVar\<close> is \<open>0..1\<close>), the constraints in the order of the
  \<open>Add\<close> calls, and the expression to minimise.\<close>

record modelo =
  variaveis :: "(var \<times> int \<times> int) list"
  restricoes :: "constr list"
  objetivo :: lexpr

definition in_bounds :: "solution \<Rightarrow> var \<times> int \<times> int \<Rightarrow> bool" where
  "in_bounds \<sigma> b = (case b of (v, lo, hi) \<Rightarrow> lo \<le> \<sigma> v \<and> \<sigma> v \<le> hi)"

text \<open>What the solver adapter promises for the statuses OPTIMAL and FEASIBLE: the values
  respect every bound and every constraint.\<close>

definition feasible :: "modelo \<Rightarrow> solution \<Rightarrow> bool" where
  "feasible m \<sigma> = (list_all (in_bounds \<sigma>) (variaveis m) \<and> list_all (holds \<sigma>) (restricoes m))"

text \<open>The result statuses of \<open>pywraplp.Solver\<close>, an external library: the values of its
  enumeration \<open>ResultStatus\<close>.\<close>

definition OPTIMAL :: int where "OPTIMAL = 0"
definition FEASIBLE :: int where "FEASIBLE = 1"
definition INFEASIBLE :: int where "INFEASIBLE = 2"
definition UNBOUNDED :: int where "UNBOUNDED = 3"
definition ABNORMAL :: int where "ABNORMAL = 4"
definition MODEL_INVALID :: int where "MODEL_INVALID = 5"
definition NOT_SOLVED :: int where "NOT_SOLVED = 6"

type_synonym chave = "did \<times> int \<times> tid"

definition chave_var :: "chave \<Rightarrow> var" where
  "chave_var k = (case k of (d, s, t) \<Rightarrow> Alocacao d s t)"

text \<open>\<open>[var for key, var in alocacao.items() if key[0] == d_id]\<close>\<close>

definition vars_de :: "chave list \<Rightarrow> did \<Rightarrow> chave list" where
  "vars_de alocacao d_id = filter (\<lambda>k. fst k = d_id) alocacao"

text \<open>\<open>[var for (d, sem, t), var in alocacao.items() if d == d_id and sem == s]\<close>\<close>

definition vars_de_em :: "chave list \<Rightarrow> did \<Rightarrow> int \<Rightarrow> chave list" where
  "vars_de_em alocacao d_id s = filter (\<lambda>k. fst k = d_id \<and> fst (snd k) = s) alocacao"

text \<open>\<open>solver.Sum\<close> of a list of variables.\<close>

definition soma_vars :: "chave list \<Rightarrow> lexpr" where
  "soma_vars ks = Sum (map (\<lambda>k. Var (chave_var k)) ks)"

text \<open>\<open>[s * var for (d, s, t), var in alocacao.items() if d == d_id]\<close>\<close>

definition termos_semestre :: "chave list \<Rightarrow> did \<Rightarrow> lexpr list" where
  "termos_semestre alocacao d_id =
     map (\<lambda>k. Mul (of_int (fst (snd k))) (Var (chave_var k))) (vars_de alocacao d_id)"

section \<open>The services builder (\<open>services/optimizer.py\<close>)\<close>

text \<open>The dictionary returned by \<open>_preparar_disciplinas_a_cursar\<close>.\<close>

record a_cursar =
  obrigatorias :: "did list"
  optativas :: "did list"
  todas :: "did list"

definition preparar_disciplinas_a_cursar :: "OptimizerConfig \<Rightarrow> a_cursar" where
  "preparar_disciplinas_a_cursar cfg =
     (let disciplinas_concluidas_set = set (disciplinas_concluidas_ids cfg);
          obrigatorias_a_cursar =
            filter (\<lambda>d_id. d_id \<notin> disciplinas_concluidas_set) (obrigatorias_ids (dados cfg));
          optativas_a_cursar =
            filter (\<lambda>d_id. d_id \<notin> disciplinas_concluidas_set) (optativas_ids (dados cfg))
      in \<lparr>obrigatorias = obrigatorias_a_cursar, optativas = optativas_a_cursar,
          todas = obrigatorias_a_cursar @ optativas_a_cursar\<rparr>)"

text \<open>\<open>_calcular_creditos_minimos_restantes\<close>.  \<open>str.lower\<close> is a library function of
  Python; it is the parameter \<open>lower\<close>.\<close>

definition creditos_feitos_passo ::
  "(string \<Rightarrow> string) \<Rightarrow> (did \<times> disc) list \<Rightarrow> did \<Rightarrow> creditos_tipo \<Rightarrow> creditos_tipo" where
  "creditos_feitos_passo lower info d_id feitos =
     (case map_of info d_id of
        None \<Rightarrow> feitos
      | Some disciplina \<Rightarrow>
          (let credito_disciplina = creditos disciplina;
               tp = lower (case tipo disciplina of None \<Rightarrow> [] | Some x \<Rightarrow> x)
           in if sublist ''restrita'' tp
                then feitos\<lparr>restrita := restrita feitos + credito_disciplina\<rparr>
              else if sublist ''condicionada'' tp
                then feitos\<lparr>condicionada := condicionada feitos + credito_disciplina\<rparr>
              else if sublist ''livre'' tp \<or> prefix ''ARTIFICIAL'' d_id
                then feitos\<lparr>livre := livre feitos + credito_disciplina\<rparr>
              else feitos))"

definition calcular_creditos_minimos_restantes ::
  "(string \<Rightarrow> string) \<Rightarrow> OptimizerConfig \<Rightarrow> creditos_tipo" where
  "calcular_creditos_minimos_restantes lower cfg =
     (let creditos_feitos =
            fold (creditos_feitos_passo lower (todas_disciplinas_info cfg))
                 (disciplinas_concluidas_ids cfg)
                 \<lparr>restrita = 0, condicionada = 0, livre = 0\<rparr>
      in \<lparr>restrita = max 0 (restrita (creditos_minimos cfg) - restrita creditos_feitos),
          condicionada = max 0 (condicionada (creditos_minimos cfg) - condicionada creditos_feitos),
          livre = max 0 (livre (creditos_minimos cfg) - livre creditos_feitos)\<rparr>)"

text \<open>\<open>range(semestre_inicio, num_semestres_total + 1)\<close>\<close>

definition semestres :: "OptimizerConfig \<Rightarrow> int list" where
  "semestres cfg = [semestre_inicio cfg .. num_semestres_total cfg]"

text \<open>\<open>_criar_variaveis_decisao\<close>, first loop: one \<open>BoolVar\<close> for every course still to
  take, every section of it and every term of the range.\<close>

definition criar_alocacao :: "OptimizerConfig \<Rightarrow> did list \<Rightarrow> chave list" where
  "criar_alocacao cfg disciplinas_todas =
     fold (\<lambda>d_id. fold (\<lambda>t_id. fold (\<lambda>s. dict_set (d_id, s, t_id)) (semestres cfg))
                        (get_list (turmas_por_disciplina (dados cfg)) d_id))
          disciplinas_todas []"

text \<open>The entry \<open>cursada_vars[d_id]\<close>: a variable fixed to zero when the course has no
  allocation variable, the sum of its allocation variables otherwise.\<close>

definition cursada_var :: "chave list \<Rightarrow> did \<Rightarrow> lexpr" where
  "cursada_var alocacao d_id =
     (if vars_de alocacao d_id = [] then Var (Cursada d_id)
      else soma_vars (vars_de alocacao d_id))"

text \<open>The constraint that the second loop of \<open>_criar_variaveis_decisao\<close> adds for
  \<open>d_id\<close>.\<close>

definition ligacao :: "OptimizerConfig \<Rightarrow> chave list \<Rightarrow> did \<Rightarrow> constr" where
  "ligacao cfg alocacao d_id =
     (let dummy_value = num_semestres_total cfg + 2
      in if vars_de alocacao d_id = []
         then Constr (Var (Semestre d_id)) EQ (Const (of_int dummy_value))
         else Constr (Var (Semestre d_id)) EQ
                (Add (Sum (termos_semestre alocacao d_id))
                     (Mul (of_int dummy_value) (Sub (Const 1) (soma_vars (vars_de alocacao d_id))))))"

text \<open>The variables that \<open>_criar_variaveis_decisao\<close> declares, with their bounds.\<close>

definition variaveis_decisao :: "OptimizerConfig \<Rightarrow> chave list \<Rightarrow> did list \<Rightarrow> (var \<times> int \<times> int) list" where
  "variaveis_decisao cfg alocacao disciplinas_todas =
     map (\<lambda>k. (chave_var k, 0, 1)) alocacao
     @ map (\<lambda>d_id. (Semestre d_id, semestre_inicio cfg, num_semestres_total cfg + 1)) disciplinas_todas
     @ map (\<lambda>d_id. (Cursada d_id, 0, 0)) (filter (\<lambda>d_id. vars_de alocacao d_id = []) disciplinas_todas)"

definition restricoes_ligacao :: "OptimizerConfig \<Rightarrow> chave list \<Rightarrow> did list \<Rightarrow> constr list" where
  "restricoes_ligacao cfg alocacao disciplinas_todas = map (ligacao cfg alocacao) disciplinas_todas"

text \<open>R1, \<open>_adicionar_restricao_obrigatorias\<close>.  The result pairs the constraints added
  with the courses for which \<open>logger.warning\<close> is called.\<close>

fun adicionar_restricao_obrigatorias :: "did list \<Rightarrow> chave list \<Rightarrow> constr list \<times> did list" where
  "adicionar_restricao_obrigatorias [] alocacao = ([], [])"
| "adicionar_restricao_obrigatorias (d_id # ds) alocacao =
     (let vars_obrigatoria = vars_de alocacao d_id;
          r = adicionar_restricao_obrigatorias ds alocacao
      in if vars_obrigatoria = [] then (fst r, d_id # snd r)
         else (Constr (soma_vars vars_obrigatoria) EQ (Const 1) # fst r, snd r))"

text \<open>R2, \<open>_adicionar_restricao_optativas\<close>.\<close>

definition adicionar_restricao_optativas :: "did list \<Rightarrow> chave list \<Rightarrow> constr list" where
  "adicionar_restricao_optativas optativas_a_cursar alocacao =
     map (\<lambda>d_id. Constr (soma_vars (vars_de alocacao d_id)) LE (Const 1))
         (filter (\<lambda>d_id. vars_de alocacao d_id \<noteq> []) optativas_a_cursar)"

text \<open>R3, \<open>_adicionar_restricao_creditos_minimos\<close>: the same block three times, once for
  each kind of elective.\<close>

definition restricao_creditos_minimos_tipo ::
  "DadosDisciplinas \<Rightarrow> chave list \<Rightarrow> did list \<Rightarrow> did list \<Rightarrow> int \<Rightarrow> constr list" where
  "restricao_creditos_minimos_tipo dd alocacao disciplinas_todas ids minimo =
     (if ids = [] then []
      else (let termos =
                  concat (map (\<lambda>d_id.
                     case map_of (disciplinas dd) d_id of
                       None \<Rightarrow> []
                     | Some info \<Rightarrow>
                         if d_id \<in> set disciplinas_todas
                         then [Mul (of_int (creditos info)) (cursada_var alocacao d_id)]
                         else []) ids)
            in if termos = [] then []
               else [Constr (Sum termos) GE (Const (of_int minimo))]))"

definition adicionar_restricao_creditos_minimos ::
  "OptimizerConfig \<Rightarrow> chave list \<Rightarrow> did list \<Rightarrow> creditos_tipo \<Rightarrow> constr list" where
  "adicionar_restricao_creditos_minimos cfg alocacao disciplinas_todas creditos_minimos_restantes =
     restricao_creditos_minimos_tipo (dados cfg) alocacao disciplinas_todas
        (restritas_ids (dados cfg)) (restrita creditos_minimos_restantes)
     @ restricao_creditos_minimos_tipo (dados cfg) alocacao disciplinas_todas
        (condicionadas_ids (dados cfg)) (condicionada creditos_minimos_restantes)
     @ restricao_creditos_minimos_tipo (dados cfg) alocacao disciplinas_todas
        (livres_ids (dados cfg)) (livre creditos_minimos_restantes)"

text \<open>R4, \<open>_adicionar_restricao_prerequisitos\<close>: the two constraints of one pair
  (course, prerequisite), and the double loop.\<close>

definition restricoes_par :: "OptimizerConfig \<Rightarrow> chave list \<Rightarrow> did \<Rightarrow> did \<Rightarrow> constr list" where
  "restricoes_par cfg alocacao d_id prereq_id =
     (let m_prereq = num_semestres_total cfg + 2
      in [Constr (cursada_var alocacao prereq_id) GE (cursada_var alocacao d_id),
          Constr (Sub (Var (Semestre d_id)) (Var (Semestre prereq_id))) GE
                 (Sub (Const 1) (Mul (of_int m_prereq) (Sub (Const 1) (cursada_var alocacao d_id))))])"

definition adicionar_restricao_prerequisitos ::
  "OptimizerConfig \<Rightarrow> chave list \<Rightarrow> did list \<Rightarrow> constr list" where
  "adicionar_restricao_prerequisitos cfg alocacao disciplinas_todas =
     concat (map (\<lambda>d_id.
        case map_of (disciplinas (dados cfg)) d_id of
          None \<Rightarrow> []
        | Some disc_info \<Rightarrow>
            concat (map (\<lambda>prereq_id.
              if prereq_id \<in> set (disciplinas_concluidas_ids cfg) then []
              else if prereq_id \<in> set disciplinas_todas then restricoes_par cfg alocacao d_id prereq_id
              else []) (prerequisitos disc_info)))
       disciplinas_todas)"

text \<open>R5, \<open>_adicionar_restricao_conflitos_horario\<close>.  \<open>horarios_do_semestre\<close> maps each
  time slot to the variables of the term that occupy it, in the order of the
  allocation dictionary.\<close>

definition alocacao_em :: "chave list \<Rightarrow> int \<Rightarrow> chave list" where
  "alocacao_em alocacao s = filter (\<lambda>k. fst (snd k) = s) alocacao"

definition horarios_do_semestre :: "DadosDisciplinas \<Rightarrow> chave list \<Rightarrow> int \<Rightarrow> (string \<times> chave list) list" where
  "horarios_do_semestre dd alocacao s =
     (let ks = alocacao_em alocacao s;
          hs = dict_keys (concat (map (\<lambda>k. get_list (horarios_por_turma dd) (snd (snd k))) ks))
      in map (\<lambda>h. (h, concat (map (\<lambda>k. map (\<lambda>_. k)
                        (filter (\<lambda>h'. h' = h) (get_list (horarios_por_turma dd) (snd (snd k))))) ks))) hs)"

definition adicionar_restricao_conflitos_horario :: "OptimizerConfig \<Rightarrow> chave list \<Rightarrow> constr list" where
  "adicionar_restricao_conflitos_horario cfg alocacao =
     concat (map (\<lambda>s.
        map (\<lambda>hv. Constr (soma_vars (snd hv)) LE (Const 1))
            (filter (\<lambda>hv. length (snd hv) > 1) (horarios_do_semestre (dados cfg) alocacao s)))
       (semestres cfg))"

text \<open>R6, \<open>_adicionar_restricao_limite_creditos\<close>.\<close>

definition termos_de_credito :: "DadosDisciplinas \<Rightarrow> chave list \<Rightarrow> int \<Rightarrow> lexpr list" where
  "termos_de_credito dd alocacao s =
     map (\<lambda>dc. Mul (of_int (creditos (snd dc))) (soma_vars (vars_de_em alocacao (fst dc) s)))
         (filter (\<lambda>dc. vars_de_em alocacao (fst dc) s \<noteq> []) (disciplinas dd))"

definition creditos_cursados_no_semestre :: "DadosDisciplinas \<Rightarrow> chave list \<Rightarrow> int \<Rightarrow> lexpr" where
  "creditos_cursados_no_semestre dd alocacao s =
     (if termos_de_credito dd alocacao s \<noteq> [] then Sum (termos_de_credito dd alocacao s)
      else Var (CreditosS s))"

definition adicionar_restricao_limite_creditos :: "OptimizerConfig \<Rightarrow> chave list \<Rightarrow> constr list" where
  "adicionar_restricao_limite_creditos cfg alocacao =
     map (\<lambda>s. Constr (creditos_cursados_no_semestre (dados cfg) alocacao s) LE
                     (Const (of_int (creditos_maximos_por_semestre cfg))))
         (semestres cfg)"

definition variaveis_limite_creditos :: "OptimizerConfig \<Rightarrow> chave list \<Rightarrow> (var \<times> int \<times> int) list" where
  "variaveis_limite_creditos cfg alocacao =
     map (\<lambda>s. (CreditosS s, 0, 0))
         (filter (\<lambda>s. termos_de_credito (dados cfg) alocacao s = []) (semestres cfg))"

text \<open>\<open>_definir_funcao_objetivo\<close>: the loop runs over the keys of \<open>cursada_vars\<close>.\<close>

definition definir_funcao_objetivo :: "OptimizerConfig \<Rightarrow> chave list \<Rightarrow> did list \<Rightarrow> constr list" where
  "definir_funcao_objetivo cfg alocacao disciplinas_todas =
     (let m_obj = num_semestres_total cfg + 2
      in map (\<lambda>d_id. Constr (Var SemestreMaximo) GE
                  (Sub (Var (Semestre d_id))
                       (Mul (of_int m_obj) (Sub (Const 1) (cursada_var alocacao d_id)))))
             (dict_keys disciplinas_todas))"

text \<open>The model that \<open>resolver\<close> has built when it calls the solver, and the courses it
  has warned about.\<close>

definition construir_modelo :: "(string \<Rightarrow> string) \<Rightarrow> OptimizerConfig \<Rightarrow> modelo" where
  "construir_modelo lower cfg =
     (let disciplinas_a_cursar = preparar_disciplinas_a_cursar cfg;
          creditos_minimos_restantes = calcular_creditos_minimos_restantes lower cfg;
          alocacao = criar_alocacao cfg (todas disciplinas_a_cursar)
      in \<lparr>variaveis =
            variaveis_decisao cfg alocacao (todas disciplinas_a_cursar)
            @ variaveis_limite_creditos cfg alocacao
            @ [(SemestreMaximo, semestre_inicio cfg, num_semestres_total cfg)],
          restricoes =
            restricoes_ligacao cfg alocacao (todas disciplinas_a_cursar)
            @ fst (adicionar_restricao_obrigatorias (obrigatorias disciplinas_a_cursar) alocacao)
            @ adicionar_restricao_optativas (optativas disciplinas_a_cursar) alocacao
            @ adicionar_restricao_creditos_minimos cfg alocacao (todas disciplinas_a_cursar)
                creditos_minimos_restantes
            @ adicionar_restricao_prerequisitos cfg alocacao (todas disciplinas_a_cursar)
            @ adicionar_restricao_conflitos_horario cfg alocacao
            @ adicionar_restricao_limite_creditos cfg alocacao
            @ definir_funcao_objetivo cfg alocacao (todas disciplinas_a_cursar),
          objetivo = Var SemestreMaximo\<rparr>)"

definition avisos_obrigatorias :: "OptimizerConfig \<Rightarrow> did list" where
  "avisos_obrigatorias cfg =
     (let disciplinas_a_cursar = preparar_disciplinas_a_cursar cfg
      in snd (adicionar_restricao_obrigatorias (obrigatorias disciplinas_a_cursar)
                (criar_alocacao cfg (todas disciplinas_a_cursar))))"

section \<open>The backend builder (\<open>backend/optimizerSCIP.py\<close>)\<close>

text \<open>The exceptions that the modelled code can raise.\<close>

datatype exc = KeyError | ValueError | AttributeError | HTTPException int

text \<open>First loop of \<open>resolver_grade\<close>: no variable for a course of \<open>cursadas_set\<close>;
  for the others one \<open>BoolVar\<close> for every section and every term of \<open>1..NUM_SEMESTRES\<close>
  whose parity the course's valid periods allow (\<open>{1, 2}\<close> when the course has no entry).\<close>

definition periodos_validos :: "DadosDisciplinas \<Rightarrow> did \<Rightarrow> int list" where
  "periodos_validos dd d_id =
     (case map_of (periodos_validos_por_disciplina dd) d_id of None \<Rightarrow> [1, 2] | Some p \<Rightarrow> p)"

definition oferta_no_semestre :: "DadosDisciplinas \<Rightarrow> did \<Rightarrow> int \<Rightarrow> bool" where
  "oferta_no_semestre dd d_id s =
     (let oferta_em_impar = (1 \<in> set (periodos_validos dd d_id));
          oferta_em_par = (2 \<in> set (periodos_validos dd d_id));
          is_semestre_impar = (s mod 2 \<noteq> 0)
      in (is_semestre_impar \<and> oferta_em_impar) \<or> (\<not> is_semestre_impar \<and> oferta_em_par))"

definition alocacao_scip :: "DadosDisciplinas \<Rightarrow> int \<Rightarrow> did list \<Rightarrow> chave list" where
  "alocacao_scip dd NUM_SEMESTRES disciplinas_cursadas =
     fold (\<lambda>d_id acc.
             if d_id \<in> set disciplinas_cursadas then acc
             else fold (\<lambda>t_id. fold (\<lambda>s acc'.
                          if oferta_no_semestre dd d_id s then dict_set (d_id, s, t_id) acc' else acc')
                        [1 .. NUM_SEMESTRES])
                       (get_list (turmas_por_disciplina dd) d_id) acc)
          (map fst (disciplinas dd)) []"

text \<open>The entries \<open>cursada_vars[d_id]\<close> and \<open>semestre_da_disciplina[d_id]\<close>: the integers 1
  and 0 for a course already taken, the sum of the allocation variables and the
  \<open>IntVar\<close> otherwise.\<close>

definition cursada_scip :: "chave list \<Rightarrow> did list \<Rightarrow> did \<Rightarrow> lexpr" where
  "cursada_scip alocacao disciplinas_cursadas d_id =
     (if d_id \<in> set disciplinas_cursadas then Const 1 else soma_vars (vars_de alocacao d_id))"

definition semestre_scip :: "did list \<Rightarrow> did \<Rightarrow> lexpr" where
  "semestre_scip disciplinas_cursadas d_id =
     (if d_id \<in> set disciplinas_cursadas then Const 0 else Var (Semestre d_id))"

text \<open>R1.1 and R1.2.\<close>

definition restricoes_R1_1 :: "DadosDisciplinas \<Rightarrow> chave list \<Rightarrow> did list \<Rightarrow> constr list" where
  "restricoes_R1_1 dd alocacao disciplinas_cursadas =
     map (\<lambda>d_id. Constr (soma_vars (vars_de alocacao d_id)) EQ (Const 1))
         (filter (\<lambda>d_id. d_id \<notin> set disciplinas_cursadas) (obrigatorias_ids dd))"

definition restricoes_R1_2 :: "DadosDisciplinas \<Rightarrow> chave list \<Rightarrow> did list \<Rightarrow> constr list" where
  "restricoes_R1_2 dd alocacao disciplinas_cursadas =
     map (\<lambda>d_id. Constr (soma_vars (vars_de alocacao d_id)) LE (Const 1))
         (filter (\<lambda>d_id. d_id \<notin> set disciplinas_cursadas) (optativas_ids dd))"

text \<open>R2, the linking constraint.\<close>

definition ligacao_scip :: "int \<Rightarrow> chave list \<Rightarrow> did \<Rightarrow> constr" where
  "ligacao_scip NUM_SEMESTRES alocacao d_id =
     Constr (Var (Semestre d_id)) EQ
       (Add (Sum (termos_semestre alocacao d_id))
            (Mul (of_int (NUM_SEMESTRES + 1)) (Sub (Const 1) (soma_vars (vars_de alocacao d_id)))))"

definition restricoes_R2 :: "DadosDisciplinas \<Rightarrow> int \<Rightarrow> chave list \<Rightarrow> did list \<Rightarrow> constr list" where
  "restricoes_R2 dd NUM_SEMESTRES alocacao disciplinas_cursadas =
     map (ligacao_scip NUM_SEMESTRES alocacao)
         (filter (\<lambda>d_id. d_id \<notin> set disciplinas_cursadas) (map fst (disciplinas dd)))"

text \<open>R3: \<open>disciplinas[d_id]\<close> raises \<open>KeyError\<close> for an identifier of a category list
  that is not a course of the catalogue.\<close>

fun termos_R3 :: "DadosDisciplinas \<Rightarrow> chave list \<Rightarrow> did list \<Rightarrow> did list \<Rightarrow> exc + lexpr list" where
  "termos_R3 dd alocacao disciplinas_cursadas [] = Inr []"
| "termos_R3 dd alocacao disciplinas_cursadas (d_id # ids) =
     (case map_of (disciplinas dd) d_id of
        None \<Rightarrow> Inl KeyError
      | Some info \<Rightarrow>
          (case termos_R3 dd alocacao disciplinas_cursadas ids of
             Inl e \<Rightarrow> Inl e
           | Inr ts \<Rightarrow> Inr (Mul (of_int (creditos info))
                               (cursada_scip alocacao disciplinas_cursadas d_id) # ts)))"

definition restricao_R3_tipo ::
  "DadosDisciplinas \<Rightarrow> chave list \<Rightarrow> did list \<Rightarrow> did list \<Rightarrow> int \<Rightarrow> exc + constr list" where
  "restricao_R3_tipo dd alocacao disciplinas_cursadas ids minimo =
     (if ids = [] then Inr []
      else (case termos_R3 dd alocacao disciplinas_cursadas ids of
              Inl e \<Rightarrow> Inl e
            | Inr ts \<Rightarrow> Inr [Constr (Sum ts) GE (Const (of_int minimo))]))"

definition restricoes_R3 ::
  "DadosDisciplinas \<Rightarrow> creditos_tipo \<Rightarrow> chave list \<Rightarrow> did list \<Rightarrow> exc + constr list" where
  "restricoes_R3 dd minimos alocacao disciplinas_cursadas =
     (case restricao_R3_tipo dd alocacao disciplinas_cursadas (restritas_ids dd) (restrita minimos) of
        Inl e \<Rightarrow> Inl e
      | Inr r1 \<Rightarrow>
     (case restricao_R3_tipo dd alocacao disciplinas_cursadas (condicionadas_ids dd) (condicionada minimos) of
        Inl e \<Rightarrow> Inl e
      | Inr r2 \<Rightarrow>
     (case restricao_R3_tipo dd alocacao disciplinas_cursadas (livres_ids dd) (livre minimos) of
        Inl e \<Rightarrow> Inl e
      | Inr r3 \<Rightarrow> Inr (r1 @ r2 @ r3))))"

text \<open>R4: the constraints of one pair (course, prerequisite) and the double loop.  The
  test \<open>isinstance(var_pre, int) and var_pre == 1\<close> holds exactly for the integer 1 that
  stands for a course already taken.\<close>

definition restricoes_par_scip :: "int \<Rightarrow> chave list \<Rightarrow> did list \<Rightarrow> did \<Rightarrow> did \<Rightarrow> constr list" where
  "restricoes_par_scip NUM_SEMESTRES alocacao disciplinas_cursadas d_id prereq_id =
     (let M_prereq = NUM_SEMESTRES + 1;
          var_d = cursada_scip alocacao disciplinas_cursadas d_id;
          var_pre = cursada_scip alocacao disciplinas_cursadas prereq_id;
          sem_d = semestre_scip disciplinas_cursadas d_id;
          sem_pre = semestre_scip disciplinas_cursadas prereq_id
      in (if var_pre = Const 1 then [] else [Constr var_pre GE var_d])
         @ [Constr (Sub sem_d sem_pre) GE
                   (Sub (Const 1) (Mul (of_int M_prereq) (Sub (Const 1) var_d)))])"

definition restricoes_R4 :: "DadosDisciplinas \<Rightarrow> int \<Rightarrow> chave list \<Rightarrow> did list \<Rightarrow> constr list" where
  "restricoes_R4 dd NUM_SEMESTRES alocacao disciplinas_cursadas =
     concat (map (\<lambda>dc.
        if fst dc \<in> set disciplinas_cursadas then []
        else concat (map (\<lambda>prereq_id.
               if \<not> has_key (disciplinas dd) prereq_id then []
               else restricoes_par_scip NUM_SEMESTRES alocacao disciplinas_cursadas (fst dc) prereq_id)
             (prerequisitos (snd dc))))
       (disciplinas dd))"

text \<open>R5: one constraint for every time slot of every term.\<close>

definition restricoes_R5 :: "DadosDisciplinas \<Rightarrow> int \<Rightarrow> chave list \<Rightarrow> constr list" where
  "restricoes_R5 dd NUM_SEMESTRES alocacao =
     concat (map (\<lambda>s. map (\<lambda>hv. Constr (soma_vars (snd hv)) LE (Const 1))
                          (horarios_do_semestre dd alocacao s))
                 [1 .. NUM_SEMESTRES])"

text \<open>R6: the credit limit of a term, added only when some course can be taken in it.\<close>

definition termos_de_credito_scip :: "DadosDisciplinas \<Rightarrow> chave list \<Rightarrow> did list \<Rightarrow> int \<Rightarrow> lexpr list" where
  "termos_de_credito_scip dd alocacao disciplinas_cursadas s =
     map (\<lambda>dc. Mul (of_int (creditos (snd dc))) (soma_vars (vars_de_em alocacao (fst dc) s)))
         (filter (\<lambda>dc. fst dc \<notin> set disciplinas_cursadas \<and> vars_de_em alocacao (fst dc) s \<noteq> [])
                 (disciplinas dd))"

definition restricoes_R6 :: "DadosDisciplinas \<Rightarrow> int \<Rightarrow> int \<Rightarrow> chave list \<Rightarrow> did list \<Rightarrow> constr list" where
  "restricoes_R6 dd NUM_SEMESTRES CREDITOS_MAXIMOS_POR_SEMESTRE alocacao disciplinas_cursadas =
     map (\<lambda>s. Constr (Sum (termos_de_credito_scip dd alocacao disciplinas_cursadas s)) LE
                     (Const (of_int CREDITOS_MAXIMOS_POR_SEMESTRE)))
         (filter (\<lambda>s. termos_de_credito_scip dd alocacao disciplinas_cursadas s \<noteq> [])
                 [1 .. NUM_SEMESTRES])"

text \<open>R7, the internship rule.\<close>

definition id_estagio :: did where
  "id_estagio = ''EEWU00''"

text \<open>\<open>vars_concluidas_antes_s\<close>: the allocation variables of the other courses in the
  terms before \<open>s\<close>.\<close>

definition vars_concluidas_antes :: "DadosDisciplinas \<Rightarrow> chave list \<Rightarrow> did list \<Rightarrow> int \<Rightarrow> chave list" where
  "vars_concluidas_antes dd alocacao disciplinas_cursadas s =
     concat (map (\<lambda>d_other.
        if d_other \<in> set disciplinas_cursadas then []
        else if d_other = id_estagio then []
        else concat (map (\<lambda>sem_past.
               filter (\<lambda>k. k \<in> set alocacao)
                      (map (\<lambda>t_other. (d_other, sem_past, t_other))
                           (get_list (turmas_por_disciplina dd) d_other)))
             [1 .. s - 1]))
       (map fst (disciplinas dd)))"

definition restricao_estagio :: "DadosDisciplinas \<Rightarrow> chave list \<Rightarrow> did list \<Rightarrow> int \<Rightarrow> constr" where
  "restricao_estagio dd alocacao disciplinas_cursadas s =
     (let total_disciplinas = int (length (disciplinas dd));
          metade_total = (of_int total_disciplinas :: rat) / 2;
          M_estagio = total_disciplinas + 1;
          is_estagio_in_s = soma_vars (vars_de_em alocacao id_estagio s);
          count_cursadas_past = int (card (set disciplinas_cursadas));
          total_concluidas_antes_s =
            Add (Const (of_int count_cursadas_past))
                (soma_vars (vars_concluidas_antes dd alocacao disciplinas_cursadas s))
      in Constr total_concluidas_antes_s GE
           (Sub (Const metade_total) (Mul (of_int M_estagio) (Sub (Const 1) is_estagio_in_s))))"

definition restricoes_R7 :: "DadosDisciplinas \<Rightarrow> int \<Rightarrow> chave list \<Rightarrow> did list \<Rightarrow> constr list" where
  "restricoes_R7 dd NUM_SEMESTRES alocacao disciplinas_cursadas =
     (if has_key (disciplinas dd) id_estagio \<and> id_estagio \<notin> set disciplinas_cursadas
      then map (restricao_estagio dd alocacao disciplinas_cursadas)
               (filter (\<lambda>s. vars_de_em alocacao id_estagio s \<noteq> []) [1 .. NUM_SEMESTRES])
      else [])"

text \<open>The objective and its constraints.\<close>

definition restricoes_objetivo :: "DadosDisciplinas \<Rightarrow> int \<Rightarrow> chave list \<Rightarrow> did list \<Rightarrow> constr list" where
  "restricoes_objetivo dd NUM_SEMESTRES alocacao disciplinas_cursadas =
     (let M_obj = NUM_SEMESTRES + 1
      in map (\<lambda>d_id. Constr (Var SemestreMaximo) GE
                  (Sub (Var (Semestre d_id))
                       (Mul (of_int M_obj) (Sub (Const 1) (soma_vars (vars_de alocacao d_id))))))
             (filter (\<lambda>d_id. d_id \<notin> set disciplinas_cursadas) (map fst (disciplinas dd))))"

text \<open>The model that \<open>resolver_grade\<close> has built when it calls the solver, or the
  exception raised on the way.\<close>

definition modelo_scip ::
  "DadosDisciplinas \<Rightarrow> creditos_tipo \<Rightarrow> int \<Rightarrow> int \<Rightarrow> did list \<Rightarrow> exc + modelo" where
  "modelo_scip dd minimos NUM_SEMESTRES CREDITOS_MAXIMOS_POR_SEMESTRE disciplinas_cursadas =
     (let alocacao = alocacao_scip dd NUM_SEMESTRES disciplinas_cursadas
      in case restricoes_R3 dd minimos alocacao disciplinas_cursadas of
           Inl e \<Rightarrow> Inl e
         | Inr r3 \<Rightarrow>
             Inr \<lparr>variaveis =
                    map (\<lambda>k. (chave_var k, 0, 1)) alocacao
                    @ map (\<lambda>d_id. (Semestre d_id, 1, NUM_SEMESTRES + 1))
                          (filter (\<lambda>d_id. d_id \<notin> set disciplinas_cursadas) (map fst (disciplinas dd)))
                    @ [(SemestreMaximo, 1, NUM_SEMESTRES)],
                  restricoes =
                    restricoes_R1_1 dd alocacao disciplinas_cursadas
                    @ restricoes_R1_2 dd alocacao disciplinas_cursadas
                    @ restricoes_R2 dd NUM_SEMESTRES alocacao disciplinas_cursadas
                    @ r3
                    @ restricoes_R4 dd NUM_SEMESTRES alocacao disciplinas_cursadas
                    @ restricoes_R5 dd NUM_SEMESTRES alocacao
                    @ restricoes_R6 dd NUM_SEMESTRES CREDITOS_MAXIMOS_POR_SEMESTRE alocacao
                        disciplinas_cursadas
                    @ restricoes_R7 dd NUM_SEMESTRES alocacao disciplinas_cursadas
                    @ restricoes_objetivo dd NUM_SEMESTRES alocacao disciplinas_cursadas,
                  objetivo = Var SemestreMaximo\<rparr>)"

section \<open>Decoding the result\<close>

text \<open>\<open>d[k] = f(d[k])\<close> on a dictionary: \<open>KeyError\<close> when the key is missing.\<close>

definition dict_update :: "'k \<Rightarrow> ('v \<Rightarrow> 'v) \<Rightarrow> ('k \<times> 'v) list \<Rightarrow> exc + ('k \<times> 'v) list" where
  "dict_update k f m =
     (if has_key m k then Inr (map (\<lambda>kv. if fst kv = k then (fst kv, f (snd kv)) else kv) m)
      else Inl KeyError)"

text \<open>\<open>var.solution_value() > 0.5\<close>\<close>

definition escolhida :: "solution \<Rightarrow> chave \<Rightarrow> bool" where
  "escolhida \<sigma> k = ((of_int (\<sigma> (chave_var k)) :: rat) > 1 / 2)"

subsection \<open>\<open>OptimizerService._processar_resultados\<close>\<close>

text \<open>The dictionary appended to the list of a term: name, section, time slots and
  credits.\<close>

datatype disciplina_alocada = DisciplinaAlocada string tid "string list" int

text \<open>\<open>GradeResultado\<close>; the elapsed wall-clock time is left out.\<close>

record GradeResultado =
  grade :: "(int \<times> disciplina_alocada list) list"
  creditos_por_semestre :: "(int \<times> int) list"
  status :: int
  objetivo_value :: "rat option"

type_synonym acumulado = "(int \<times> disciplina_alocada list) list \<times> (int \<times> int) list"

definition processar_passo :: "OptimizerConfig \<Rightarrow> solution \<Rightarrow> chave \<Rightarrow> exc + acumulado \<Rightarrow> exc + acumulado" where
  "processar_passo cfg \<sigma> k acc =
     (case acc of
        Inl e \<Rightarrow> Inl e
      | Inr gc \<Rightarrow>
          (case k of (d_id, s, t_id) \<Rightarrow>
             if escolhida \<sigma> k then
               (case map_of (disciplinas (dados cfg)) d_id of
                  None \<Rightarrow> Inr gc
                | Some info \<Rightarrow>
                    (let disciplina_alocada =
                           DisciplinaAlocada (nome info) t_id
                             (get_list (horarios_por_turma (dados cfg)) t_id) (creditos info)
                     in case dict_update s (\<lambda>l. l @ [disciplina_alocada]) (fst gc) of
                          Inl e \<Rightarrow> Inl e
                        | Inr g \<Rightarrow>
                            (case dict_update s (\<lambda>c. c + creditos info) (snd gc) of
                               Inl e \<Rightarrow> Inl e
                             | Inr c \<Rightarrow> Inr (g, c))))
             else Inr gc))"

definition processar_resultados ::
  "OptimizerConfig \<Rightarrow> int \<Rightarrow> solution \<Rightarrow> rat \<Rightarrow> chave list \<Rightarrow> exc + GradeResultado" where
  "processar_resultados cfg st \<sigma> obj_val alocacao =
     (if st = OPTIMAL \<or> st = FEASIBLE then
        (case fold (processar_passo cfg \<sigma>) alocacao
                (Inr (map (\<lambda>s. (s, [])) (semestres cfg), map (\<lambda>s. (s, 0)) (semestres cfg))) of
           Inl e \<Rightarrow> Inl e
         | Inr gc \<Rightarrow>
             (let grade_filtrada = filter (\<lambda>sg. snd sg \<noteq> []) (fst gc)
              in Inr \<lparr>grade = grade_filtrada, creditos_por_semestre = snd gc,
                      status = st, objetivo_value = Some obj_val\<rparr>))
      else Inr \<lparr>grade = [], creditos_por_semestre = [], status = st, objetivo_value = None\<rparr>)"

text \<open>\<open>OptimizerService.resolver\<close> of a service whose solver was created (the constructor
  raises \<open>RuntimeError\<close> otherwise), given what \<open>solver.Solve()\<close> returns: a status and
  the values of the variables.\<close>

definition resolver :: "(string \<Rightarrow> string) \<Rightarrow> OptimizerConfig \<Rightarrow> int \<times> solution \<Rightarrow> exc + GradeResultado" where
  "resolver lower cfg solve =
     (let m = construir_modelo lower cfg;
          alocacao = criar_alocacao cfg (todas (preparar_disciplinas_a_cursar cfg))
      in processar_resultados cfg (fst solve) (snd solve) (eval (snd solve) (objetivo m)) alocacao)"

subsection \<open>The end of the backend's \<open>resolver_grade\<close>\<close>

text \<open>Python strings are modelled by their UTF-8 bytes; for well-formed strings the
  substring test on bytes agrees with the one on code points.\<close>

definition str_Obrigatoria :: string where
  "str_Obrigatoria = ''Obrigat'' @ [CHR 0xC3, CHR 0xB3] @ ''ria''"

datatype chave_tipo = Obrigatoria | EscolhaRestrita | EscolhaCondicionada | LivreEscolha | Outros

definition normalizar_tipo :: "string \<Rightarrow> chave_tipo" where
  "normalizar_tipo tp =
     (if sublist str_Obrigatoria tp then Obrigatoria
      else if sublist ''Restrita'' tp then EscolhaRestrita
      else if sublist ''Condicionada'' tp then EscolhaCondicionada
      else if sublist ''Livre'' tp then LivreEscolha
      else Outros)"

text \<open>The structured object of an allocated course: id, name, section, time slots,
  credits and type (\<open>None\<close> stands for the default text of \<open>.get("tipo", ...)\<close>).\<close>

datatype disciplina_obj = DisciplinaObj did string tid "string list" int "string option"

type_synonym creditos_por_tipo = "chave_tipo \<Rightarrow> int"

definition tipo_ou_outros :: "disc \<Rightarrow> string" where
  "tipo_ou_outros info = (case tipo info of None \<Rightarrow> ''Outros'' | Some x \<Rightarrow> x)"

definition somar_tipo :: "disc \<Rightarrow> creditos_por_tipo \<Rightarrow> creditos_por_tipo" where
  "somar_tipo info cpt =
     (let key = normalizar_tipo (tipo_ou_outros info) in cpt(key := cpt key + creditos info))"

definition creditos_ja_cursadas :: "DadosDisciplinas \<Rightarrow> did list \<Rightarrow> creditos_por_tipo" where
  "creditos_ja_cursadas dd disciplinas_cursadas =
     fold (\<lambda>d_id cpt. case map_of (disciplinas dd) d_id of None \<Rightarrow> cpt | Some info \<Rightarrow> somar_tipo info cpt)
          (remdups disciplinas_cursadas) (\<lambda>_. 0)"

type_synonym acumulado_scip =
  "(int \<times> disciplina_obj list) list \<times> (int \<times> int) list \<times> creditos_por_tipo"

definition passo_scip :: "DadosDisciplinas \<Rightarrow> solution \<Rightarrow> chave \<Rightarrow> exc + acumulado_scip \<Rightarrow> exc + acumulado_scip" where
  "passo_scip dd \<sigma> k acc =
     (case acc of
        Inl e \<Rightarrow> Inl e
      | Inr (g, c, cpt) \<Rightarrow>
          (case k of (d_id, s, t_id) \<Rightarrow>
             if escolhida \<sigma> k then
               (case map_of (disciplinas dd) d_id of
                  None \<Rightarrow> Inl KeyError
                | Some disc_data \<Rightarrow>
                    (let disciplina_obj =
                           DisciplinaObj d_id (nome disc_data) t_id
                             (get_list (horarios_por_turma dd) t_id) (creditos disc_data) (tipo disc_data)
                     in case dict_update s (\<lambda>l. l @ [disciplina_obj]) g of
                          Inl e \<Rightarrow> Inl e
                        | Inr g' \<Rightarrow>
                            (case dict_update s (\<lambda>x. x + creditos disc_data) c of
                               Inl e \<Rightarrow> Inl e
                             | Inr c' \<Rightarrow> Inr (g', c', somar_tipo disc_data cpt))))
             else acc))"

text \<open>The values that can stand in the tuple that \<open>resolver_grade\<close> returns.\<close>

datatype pyval =
    PNone
  | PInt int
  | PNum rat
  | PGrade "(int \<times> disciplina_obj list) list"
  | PCreditos "(int \<times> int) list"
  | PTipos creditos_por_tipo

text \<open>\<open>resolver_grade\<close> of the backend.  \<open>solver_ok\<close> says whether
  \<open>pywraplp.Solver.CreateSolver('SCIP')\<close> returned a solver; \<open>solve\<close> is what
  \<open>solver.Solve()\<close> returns for the model built, a status and the values of the
  variables.  The result is the returned tuple, as the list of its components.\<close>

definition resolver_grade ::
  "bool \<Rightarrow> (modelo \<Rightarrow> int \<times> solution) \<Rightarrow> DadosDisciplinas \<Rightarrow> creditos_tipo \<Rightarrow> int \<Rightarrow> int \<Rightarrow> did list
     \<Rightarrow> exc + pyval list" where
  "resolver_grade solver_ok solve dd minimos NUM_SEMESTRES CREDITOS_MAXIMOS_POR_SEMESTRE
       disciplinas_cursadas =
     (if \<not> solver_ok then Inr [PNone, PNone, PInt (- 1), PNone]
      else
        (case modelo_scip dd minimos NUM_SEMESTRES CREDITOS_MAXIMOS_POR_SEMESTRE disciplinas_cursadas of
           Inl e \<Rightarrow> Inl e
         | Inr m \<Rightarrow>
             (let st = fst (solve m); \<sigma> = snd (solve m)
              in if st = OPTIMAL \<or> st = FEASIBLE then
                   (case fold (passo_scip dd \<sigma>) (alocacao_scip dd NUM_SEMESTRES disciplinas_cursadas)
                           (Inr (map (\<lambda>s. (s, [])) [1 .. NUM_SEMESTRES],
                                 map (\<lambda>s. (s, 0)) [1 .. NUM_SEMESTRES],
                                 creditos_ja_cursadas dd disciplinas_cursadas)) of
                      Inl e \<Rightarrow> Inl e
                    | Inr (g, c, cpt) \<Rightarrow>
                        Inr [PGrade g, PCreditos c, PInt st, PNum (eval \<sigma> (objetivo m)), PTipos cpt])
                 else Inr [PNone, PNone, PInt st, PNone, PNone])))"

subsection \<open>The handler of \<open>/optimize\<close> (\<open>backend/main.py\<close>)\<close>

datatype solution_status = SolOptimal | SolFeasible | SolInfeasible | SolOther pyval

text \<open>The response: on success the solution status, the objective value, the list of
  terms (term, courses, credits) and the credit summary; otherwise the error with its
  solution status.\<close>

datatype resposta =
    Success solution_status pyval "(int \<times> disciplina_obj list \<times> int) list" pyval
  | Error solution_status

fun formatar_grade :: "(int \<times> disciplina_obj list) list \<Rightarrow> (int \<times> int) list
    \<Rightarrow> exc + (int \<times> disciplina_obj list \<times> int) list" where
  "formatar_grade [] creditos_s = Inr []"
| "formatar_grade ((s, disciplinas_objs) # rest) creditos_s =
     (case map_of creditos_s s of
        None \<Rightarrow> Inl KeyError
      | Some c \<Rightarrow>
          (case formatar_grade rest creditos_s of
             Inl e \<Rightarrow> Inl e
           | Inr fs \<Rightarrow> Inr ((s, disciplinas_objs, c) # fs)))"

text \<open>\<open>optimize_schedule\<close>: the constants of the handler, the unpacking of the tuple into
  five names (\<open>ValueError\<close> when the tuple does not have five components), and the two
  branches on the status.\<close>

definition optimize_schedule ::
  "DadosDisciplinas option \<Rightarrow> bool \<Rightarrow> (modelo \<Rightarrow> int \<times> solution) \<Rightarrow> did list \<Rightarrow> exc + resposta" where
  "optimize_schedule dados_globais solver_ok solve taken_courses =
     (case dados_globais of
        None \<Rightarrow> Inl (HTTPException 500)
      | Some dd \<Rightarrow>
          (case resolver_grade solver_ok solve dd \<lparr>restrita = 4, condicionada = 40, livre = 8\<rparr>
                  10 32 taken_courses of
             Inl e \<Rightarrow> Inl e
           | Inr [grade_v, creditos_v, status_v, obj_value, creditos_por_tipo_v] \<Rightarrow>
               if status_v = PInt OPTIMAL \<or> status_v = PInt FEASIBLE then
                 (case (grade_v, creditos_v) of
                    (PGrade g, PCreditos c) \<Rightarrow>
                      (case formatar_grade g c of
                         Inl e \<Rightarrow> Inl e
                       | Inr fs \<Rightarrow>
                           Inr (Success (if status_v = PInt OPTIMAL then SolOptimal else SolFeasible)
                                  obj_value fs creditos_por_tipo_v))
                  | _ \<Rightarrow> Inl AttributeError)
               else Inr (Error (if status_v = PInt INFEASIBLE then SolInfeasible
                                else SolOther status_v))
           | Inr _ \<Rightarrow> Inl ValueError))"

section \<open>Categories of courses\<close>

definition str_periodo_acento :: string where
  "str_periodo_acento = ''per'' @ [CHR 0xC3, CHR 0xAD] @ ''odo''"

subsection \<open>\<open>DataLoader._categorizar_disciplinas\<close>\<close>

datatype categoria = Obrigatorias | Restritas | Condicionadas | Livres

text \<open>The branch taken for one course: the list its id is appended to, if any.\<close>

definition categoria_de :: "(string \<Rightarrow> string) \<Rightarrow> did \<times> disc \<Rightarrow> categoria option" where
  "categoria_de lower disciplina =
     (let tp = lower (case tipo (snd disciplina) of None \<Rightarrow> [] | Some x \<Rightarrow> x);
          disciplina_id = fst disciplina
      in if sublist str_periodo_acento tp \<or> sublist ''periodo'' tp then Some Obrigatorias
         else if sublist ''restrita'' tp then Some Restritas
         else if sublist ''condicionada'' tp then Some Condicionadas
         else if sublist ''livre'' tp \<or> prefix ''ARTIFICIAL'' disciplina_id then Some Livres
         else None)"

definition categorizar_disciplinas ::
  "(string \<Rightarrow> string) \<Rightarrow> (did \<times> disc) list \<Rightarrow> categoria \<Rightarrow> did list" where
  "categorizar_disciplinas lower ds =
     fold (\<lambda>disciplina categorias.
             case categoria_de lower disciplina of
               None \<Rightarrow> categorias
             | Some c \<Rightarrow> categorias(c := categorias c @ [fst disciplina]))
          ds (\<lambda>_. [])"

subsection \<open>\<open>models/disciplina.py\<close>\<close>

datatype TipoDisciplina = OBRIGATORIA | RESTRITA | CONDICIONADA | LIVRE | OUTRA

definition parse_tipo :: "(string \<Rightarrow> string) \<Rightarrow> string \<Rightarrow> TipoDisciplina" where
  "parse_tipo lower tipo_str =
     (let tipo_str = lower tipo_str
      in if sublist str_periodo_acento tipo_str \<or> sublist ''periodo'' tipo_str then OBRIGATORIA
         else if sublist ''restrita'' tipo_str then RESTRITA
         else if sublist ''condicionada'' tipo_str then CONDICIONADA
         else if sublist ''livre'' tipo_str \<or> prefix ''artificial'' tipo_str then LIVRE
         else OUTRA)"

text \<open>The instance built by \<open>Disciplina.from_dict\<close>: id, name, credits, type and
  prerequisites (the suggested period is not part of the record modelled here).\<close>

datatype Disciplina = Disciplina did string int TipoDisciplina "did list"

definition from_dict :: "(string \<Rightarrow> string) \<Rightarrow> did \<times> disc \<Rightarrow> Disciplina" where
  "from_dict lower data =
     (let tipo_str = (case tipo (snd data) of None \<Rightarrow> [] | Some x \<Rightarrow> x)
      in Disciplina (fst data) (nome (snd data)) (creditos (snd data)) (parse_tipo lower tipo_str)
           (prerequisitos (snd data)))"

fun tipo_de :: "Disciplina \<Rightarrow> TipoDisciplina" where
  "tipo_de (Disciplina i n c t p) = t"

text \<open>A lower-casing function for ASCII text, used where a concrete one is needed.\<close>

definition ascii_lower :: "string \<Rightarrow> string" where
  "ascii_lower =
     map (\<lambda>c. let n = (of_char c :: nat) in if 65 \<le> n \<and> n \<le> 90 then char_of (n + 32) else c)"

section \<open>Example inputs\<close>

text \<open>Scenario A of the specification: a single required course \<open>X\<close> of 4 credits, no
  prerequisites, one section offered in odd terms only; two terms, nothing completed.\<close>

definition dados_A :: DadosDisciplinas where
  "dados_A =
     \<lparr>disciplinas =
        [(''X'', \<lparr>nome = ''Calculo'', creditos = 4, tipo = Some ''1 Periodo'', prerequisitos = []\<rparr>)],
      turmas_por_disciplina = [(''X'', [''T1''])],
      horarios_por_turma = [(''T1'', [''SEG08''])],
      periodos_validos_por_disciplina = [(''X'', [1])],
      obrigatorias_ids = [''X''], restritas_ids = [], condicionadas_ids = [], livres_ids = []\<rparr>"

definition minimos_zero :: creditos_tipo where
  "minimos_zero = \<lparr>restrita = 0, condicionada = 0, livre = 0\<rparr>"

definition config_A :: OptimizerConfig where
  "config_A =
     \<lparr>dados = dados_A, todas_disciplinas_info = disciplinas dados_A,
      creditos_minimos = minimos_zero, creditos_maximos_por_semestre = 32,
      disciplinas_concluidas_ids = [], semestre_inicio = 1, total_creditos_curso = 240,
      num_semestres_total = 2\<rparr>"

text \<open>\<open>X\<close> in term 1.\<close>

definition sol_A :: solution where
  "sol_A v =
     (if v = Alocacao ''X'' 1 ''T1'' then 1
      else if v = Semestre ''X'' then 1
      else if v = SemestreMaximo then 1
      else 0)"

text \<open>Scenario B of the specification: \<open>Y\<close> requires \<open>X\<close>; \<open>X\<close> is offered in odd
  terms only, \<open>Y\<close> in even terms only; two terms, nothing completed.\<close>

definition dados_B :: DadosDisciplinas where
  "dados_B =
     \<lparr>disciplinas =
        [(''X'', \<lparr>nome = ''Calculo 1'', creditos = 4, tipo = Some ''1 Periodo'', prerequisitos = []\<rparr>),
         (''Y'', \<lparr>nome = ''Calculo 2'', creditos = 4, tipo = Some ''2 Periodo'',
                  prerequisitos = [''X'']\<rparr>)],
      turmas_por_disciplina = [(''X'', [''T1'']), (''Y'', [''T2''])],
      horarios_por_turma = [(''T1'', [''SEG08'']), (''T2'', [''TER08''])],
      periodos_validos_por_disciplina = [(''X'', [1]), (''Y'', [2])],
      obrigatorias_ids = [''X'', ''Y''], restritas_ids = [], condicionadas_ids = [],
      livres_ids = []\<rparr>"

definition config_B :: OptimizerConfig where
  "config_B =
     \<lparr>dados = dados_B, todas_disciplinas_info = disciplinas dados_B,
      creditos_minimos = minimos_zero, creditos_maximos_por_semestre = 32,
      disciplinas_concluidas_ids = [], semestre_inicio = 1, total_creditos_curso = 240,
      num_semestres_total = 2\<rparr>"

text \<open>\<open>X\<close> in term 1 and \<open>Y\<close> in term 2.\<close>

definition sol_B :: solution where
  "sol_B v =
     (if v = Alocacao ''X'' 1 ''T1'' then 1
      else if v = Alocacao ''Y'' 2 ''T2'' then 1
      else if v = Semestre ''X'' then 1
      else if v = Semestre ''Y'' then 2
      else if v = SemestreMaximo then 2
      else 0)"



text \<open>Scenario D of the specification: the internship \<open>EEWU00\<close> and one other required
  course \<open>X\<close>, each with one section offered in every term and on different time slots;
  two terms, nothing completed.\<close>

definition dados_E :: DadosDisciplinas where
  "dados_E =
     \<lparr>disciplinas =
        [(''X'', \<lparr>nome = ''Calculo'', creditos = 4, tipo = Some ''1 Periodo'', prerequisitos = []\<rparr>),
         (''EEWU00'', \<lparr>nome = ''Estagio'', creditos = 4, tipo = Some ''9 Periodo'',
                       prerequisitos = []\<rparr>)],
      turmas_por_disciplina = [(''X'', [''T1'']), (''EEWU00'', [''TE''])],
      horarios_por_turma = [(''T1'', [''SEG08'']), (''TE'', [''SEX14''])],
      periodos_validos_por_disciplina = [],
      obrigatorias_ids = [''X'', ''EEWU00''], restritas_ids = [], condicionadas_ids = [],
      livres_ids = []\<rparr>"

definition config_E :: OptimizerConfig where
  "config_E =
     \<lparr>dados = dados_E, todas_disciplinas_info = disciplinas dados_E,
      creditos_minimos = minimos_zero, creditos_maximos_por_semestre = 32,
      disciplinas_concluidas_ids = [], semestre_inicio = 1, total_creditos_curso = 240,
      num_semestres_total = 2\<rparr>"

text \<open>\<open>X\<close> in term 1 and the internship in term 2.\<close>

definition sol_E :: solution where
  "sol_E v =
     (if v = Alocacao ''X'' 1 ''T1'' then 1
      else if v = Alocacao ''EEWU00'' 2 ''TE'' then 1
      else if v = Semestre ''X'' then 1
      else if v = Semestre ''EEWU00'' then 2
      else if v = SemestreMaximo then 2
      else 0)"

text \<open>\<open>X\<close> and the internship both in term 1.\<close>

definition sol_E1 :: solution where
  "sol_E1 v =
     (if v = Alocacao ''X'' 1 ''T1'' then 1
      else if v = Alocacao ''EEWU00'' 1 ''TE'' then 1
      else if v = Semestre ''X'' then 1
      else if v = Semestre ''EEWU00'' then 1
      else if v = SemestreMaximo then 1
      else 0)"

text \<open>A course record whose id has the prefix of the artificial courses and whose label
  names no category.\<close>

definition registro_artificial :: "did \<times> disc" where
  "registro_artificial =
     (''ARTIFICIAL01'', \<lparr>nome = ''Atividades'', creditos = 2, tipo = Some ''Optativa'',
                         prerequisitos = []\<rparr>)"

section \<open>Allocation variables\<close>

lemma set_dict_set: "set (dict_set k ks) = insert k (set ks)"
  by (auto simp: dict_set_def)

lemma distinct_dict_set: "distinct ks \<Longrightarrow> distinct (dict_set k ks)"
  by (simp add: dict_set_def)

lemma set_fold_acc:
  assumes "\<And>x acc. set (f x acc) = set acc \<union> S x"
  shows "set (fold f xs acc) = set acc \<union> (\<Union>x\<in>set xs. S x)"
  using assms by (induction xs arbitrary: acc) auto

lemma distinct_fold_acc:
  assumes "\<And>x acc. distinct acc \<Longrightarrow> distinct (f x acc)" and "distinct acc"
  shows "distinct (fold f xs acc)"
  using assms by (induction xs arbitrary: acc) auto

text \<open>The keys of the allocation dictionary of the services builder: every course of
  the list, every section of it, every term from the starting term to the last.\<close>

lemma set_criar_alocacao:
  "set (criar_alocacao cfg ds) =
     {(d, s, t). d \<in> set ds \<and> t \<in> set (get_list (turmas_por_disciplina (dados cfg)) d)
                 \<and> semestre_inicio cfg \<le> s \<and> s \<le> num_semestres_total cfg}"
proof -
  have 1: "\<And>d t acc. set (fold (\<lambda>s. dict_set (d, s, t)) (semestres cfg) acc)
            = set acc \<union> (\<Union>s\<in>set (semestres cfg). {(d, s, t)})"
    by (rule set_fold_acc) (simp add: set_dict_set)
  have 2: "\<And>d ts acc. set (fold (\<lambda>t. fold (\<lambda>s. dict_set (d, s, t)) (semestres cfg)) ts acc)
            = set acc \<union> (\<Union>t\<in>set ts. \<Union>s\<in>set (semestres cfg). {(d, s, t)})"
    by (rule set_fold_acc) (simp add: 1)
  have 3: "set (criar_alocacao cfg ds) = set [] \<union> (\<Union>d\<in>set ds.
             \<Union>t\<in>set (get_list (turmas_por_disciplina (dados cfg)) d).
             \<Union>s\<in>set (semestres cfg). {(d, s, t)})"
    unfolding criar_alocacao_def by (rule set_fold_acc) (simp add: 2)
  show ?thesis unfolding 3 by (auto simp: semestres_def)
qed

lemma distinct_criar_alocacao: "distinct (criar_alocacao cfg ds)"
  unfolding criar_alocacao_def
  by (intro distinct_fold_acc distinct_dict_set) simp_all

text \<open>The keys of the allocation dictionary of the backend builder.\<close>

lemma set_alocacao_scip:
  "set (alocacao_scip dd n cs) =
     {(d, s, t). has_key (disciplinas dd) d \<and> d \<notin> set cs
                 \<and> t \<in> set (get_list (turmas_por_disciplina dd) d)
                 \<and> 1 \<le> s \<and> s \<le> n \<and> oferta_no_semestre dd d s}"
proof -
  have 1: "\<And>d t acc.
      set (fold (\<lambda>s acc'. if oferta_no_semestre dd d s then dict_set (d, s, t) acc' else acc') [1..n] acc)
        = set acc \<union> (\<Union>s\<in>set [1..n]. if oferta_no_semestre dd d s then {(d, s, t)} else {})"
    by (rule set_fold_acc) (simp add: set_dict_set)
  have 2: "\<And>d ts acc.
      set (fold (\<lambda>t. fold (\<lambda>s acc'. if oferta_no_semestre dd d s then dict_set (d, s, t) acc' else acc')
                       [1..n]) ts acc)
        = set acc \<union> (\<Union>t\<in>set ts. \<Union>s\<in>set [1..n].
                        if oferta_no_semestre dd d s then {(d, s, t)} else {})"
    by (rule set_fold_acc) (simp add: 1)
  have 3: "set (alocacao_scip dd n cs) = set [] \<union> (\<Union>d\<in>set (map fst (disciplinas dd)).
             if d \<in> set cs then {} else
             \<Union>t\<in>set (get_list (turmas_por_disciplina dd) d). \<Union>s\<in>set [1..n].
               if oferta_no_semestre dd d s then {(d, s, t)} else {})"
    unfolding alocacao_scip_def by (rule set_fold_acc) (simp add: 2)
  show ?thesis unfolding 3 by (auto simp: has_key_def split: if_splits)
qed

lemma distinct_alocacao_scip: "distinct (alocacao_scip dd n cs)"
  unfolding alocacao_scip_def
  by (intro distinct_fold_acc) (auto intro!: distinct_fold_acc distinct_dict_set)

section \<open>Feasible solutions\<close>

lemma feasible_holds: "feasible m \<sigma> \<Longrightarrow> c \<in> set (restricoes m) \<Longrightarrow> holds \<sigma> c"
  by (simp add: feasible_def list_all_iff)

lemma feasible_bounds: "feasible m \<sigma> \<Longrightarrow> (v, lo, hi) \<in> set (variaveis m) \<Longrightarrow> lo \<le> \<sigma> v \<and> \<sigma> v \<le> hi"
  by (auto simp add: feasible_def list_all_iff in_bounds_def)

lemma eval_soma_vars: "eval \<sigma> (soma_vars ks) = of_int (sum_list (map (\<lambda>k. \<sigma> (chave_var k)) ks))"
  by (induction ks) (simp_all add: soma_vars_def)

text \<open>Sums of variables that take the values 0 and 1.\<close>

lemma soma_nao_negativa:
  "\<forall>k\<in>set ks. 0 \<le> (\<sigma> :: solution) (chave_var k) \<Longrightarrow> 0 \<le> sum_list (map (\<lambda>k. \<sigma> (chave_var k)) ks)"
  by (induction ks) auto

lemma soma_binarias_ge:
  assumes "\<forall>k\<in>set ks. 0 \<le> (\<sigma> :: solution) (chave_var k)" and "k \<in> set ks" and "\<sigma> (chave_var k) = 1"
  shows "1 \<le> sum_list (map (\<lambda>k. \<sigma> (chave_var k)) ks)"
  using assms
proof (induction ks)
  case Nil
  then show ?case by simp
next
  case (Cons a ks)
  have nn: "0 \<le> sum_list (map (\<lambda>k. \<sigma> (chave_var k)) ks)"
    using Cons.prems(1) by (intro soma_nao_negativa) simp
  show ?case
  proof (cases "k = a")
    case True
    with Cons.prems(3) nn show ?thesis by simp
  next
    case False
    with Cons have "1 \<le> sum_list (map (\<lambda>k. \<sigma> (chave_var k)) ks)" by simp
    moreover have "0 \<le> \<sigma> (chave_var a)" using Cons.prems(1) by simp
    ultimately show ?thesis by simp
  qed
qed

lemma soma_binarias_ex:
  assumes "\<forall>k\<in>set ks. (\<sigma> :: solution) (chave_var k) \<le> 1" and "1 \<le> sum_list (map (\<lambda>k. \<sigma> (chave_var k)) ks)"
  shows "\<exists>k\<in>set ks. \<sigma> (chave_var k) = 1"
  using assms
proof (induction ks)
  case Nil
  then show ?case by simp
next
  case (Cons a ks)
  show ?case
  proof (cases "\<sigma> (chave_var a) = 1")
    case True
    then show ?thesis by simp
  next
    case False
    with Cons.prems(1) have "\<sigma> (chave_var a) \<le> 0" by simp
    with Cons.prems(2) have s: "1 \<le> sum_list (map (\<lambda>k. \<sigma> (chave_var k)) ks)" by simp
    have "\<forall>k\<in>set ks. \<sigma> (chave_var k) \<le> 1" using Cons.prems(1) by simp
    from Cons.IH [OF this s] show ?thesis by auto
  qed
qed

section \<open>The constraints of the services model\<close>

lemma restricoes_construir_modelo:
  "set (restricoes (construir_modelo lower cfg)) =
     (let dac = preparar_disciplinas_a_cursar cfg;
          alocacao = criar_alocacao cfg (todas dac)
      in set (restricoes_ligacao cfg alocacao (todas dac))
         \<union> set (fst (adicionar_restricao_obrigatorias (obrigatorias dac) alocacao))
         \<union> set (adicionar_restricao_optativas (optativas dac) alocacao)
         \<union> set (adicionar_restricao_creditos_minimos cfg alocacao (todas dac)
                  (calcular_creditos_minimos_restantes lower cfg))
         \<union> set (adicionar_restricao_prerequisitos cfg alocacao (todas dac))
         \<union> set (adicionar_restricao_conflitos_horario cfg alocacao)
         \<union> set (adicionar_restricao_limite_creditos cfg alocacao)
         \<union> set (definir_funcao_objetivo cfg alocacao (todas dac)))"
  by (simp add: construir_modelo_def Let_def Un_assoc)

lemma variaveis_construir_modelo:
  "set (variaveis (construir_modelo lower cfg)) =
     (let dac = preparar_disciplinas_a_cursar cfg;
          alocacao = criar_alocacao cfg (todas dac)
      in set (variaveis_decisao cfg alocacao (todas dac))
         \<union> set (variaveis_limite_creditos cfg alocacao)
         \<union> {(SemestreMaximo, semestre_inicio cfg, num_semestres_total cfg)})"
  by (simp add: construir_modelo_def Let_def Un_assoc)

lemma todas_preparar:
  "todas (preparar_disciplinas_a_cursar cfg) =
     obrigatorias (preparar_disciplinas_a_cursar cfg) @ optativas (preparar_disciplinas_a_cursar cfg)"
  by (simp add: preparar_disciplinas_a_cursar_def Let_def)

lemma set_todas_preparar:
  "set (todas (preparar_disciplinas_a_cursar cfg)) =
     {d. d \<notin> set (disciplinas_concluidas_ids cfg)
         \<and> (d \<in> set (obrigatorias_ids (dados cfg)) \<or> d \<in> set (optativas_ids (dados cfg)))}"
  by (auto simp add: preparar_disciplinas_a_cursar_def Let_def)

lemma binarias_servico:
  assumes "feasible (construir_modelo lower cfg) \<sigma>"
    and "k \<in> set (criar_alocacao cfg (todas (preparar_disciplinas_a_cursar cfg)))"
  shows "0 \<le> \<sigma> (chave_var k) \<and> \<sigma> (chave_var k) \<le> 1"
proof -
  have "(chave_var k, 0, 1) \<in> set (variaveis (construir_modelo lower cfg))"
    using assms(2) by (auto simp add: variaveis_construir_modelo Let_def variaveis_decisao_def)
  with feasible_bounds [OF assms(1)] show ?thesis by blast
qed

lemma obrigatorias_cobertura:
  "d \<in> set ds \<Longrightarrow> vars_de alocacao d \<noteq> [] \<Longrightarrow>
   Constr (soma_vars (vars_de alocacao d)) EQ (Const 1)
     \<in> set (fst (adicionar_restricao_obrigatorias ds alocacao))"
  by (induction ds) (auto simp add: Let_def)

lemma obrigatorias_avisos:
  "set (snd (adicionar_restricao_obrigatorias ds alocacao)) = {d \<in> set ds. vars_de alocacao d = []}"
  by (induction ds) (auto simp add: Let_def)

lemma obrigatorias_restricoes:
  "set (fst (adicionar_restricao_obrigatorias ds alocacao)) =
     (\<lambda>d. Constr (soma_vars (vars_de alocacao d)) EQ (Const 1)) ` {d \<in> set ds. vars_de alocacao d \<noteq> []}"
  by (induction ds) (auto simp add: Let_def)

text \<open>A course still to take that has an allocation variable is taken at most once.\<close>

lemma no_maximo_uma_vez_servico:
  assumes f: "feasible (construir_modelo lower cfg) \<sigma>"
    and d: "d \<in> set (todas (preparar_disciplinas_a_cursar cfg))"
    and v: "vars_de (criar_alocacao cfg (todas (preparar_disciplinas_a_cursar cfg))) d \<noteq> []"
  shows "sum_list (map (\<lambda>k. \<sigma> (chave_var k))
           (vars_de (criar_alocacao cfg (todas (preparar_disciplinas_a_cursar cfg))) d)) \<le> 1"
proof -
  let ?dac = "preparar_disciplinas_a_cursar cfg"
  let ?al = "criar_alocacao cfg (todas ?dac)"
  from d have "d \<in> set (obrigatorias ?dac) \<or> d \<in> set (optativas ?dac)"
    by (simp add: todas_preparar)
  then show ?thesis
  proof
    assume "d \<in> set (obrigatorias ?dac)"
    then have "Constr (soma_vars (vars_de ?al d)) EQ (Const 1)
        \<in> set (restricoes (construir_modelo lower cfg))"
      using v by (simp add: restricoes_construir_modelo Let_def obrigatorias_cobertura)
    from feasible_holds [OF f this] have "(of_int (sum_list (map (\<lambda>k. \<sigma> (chave_var k)) (vars_de ?al d))) :: rat) = 1"
      by (simp add: eval_soma_vars)
    then have "sum_list (map (\<lambda>k. \<sigma> (chave_var k)) (vars_de ?al d)) = 1"
      by (metis of_int_eq_1_iff)
    then show ?thesis by simp
  next
    assume "d \<in> set (optativas ?dac)"
    then have "Constr (soma_vars (vars_de ?al d)) LE (Const 1)
        \<in> set (restricoes (construir_modelo lower cfg))"
      using v by (simp add: restricoes_construir_modelo Let_def adicionar_restricao_optativas_def)
    from feasible_holds [OF f this] have "(of_int (sum_list (map (\<lambda>k. \<sigma> (chave_var k)) (vars_de ?al d))) :: rat) \<le> 1"
      by (simp add: eval_soma_vars)
    then show ?thesis by (metis of_int_le_1_iff)
  qed
qed

text \<open>Prerequisites in the services model.\<close>

lemma prerequisito_servico:
  assumes f: "feasible (construir_modelo lower cfg) \<sigma>"
    and al: "alocacao = criar_alocacao cfg (todas (preparar_disciplinas_a_cursar cfg))"
    and info: "map_of (disciplinas (dados cfg)) B = Some info"
    and pre: "A \<in> set (prerequisitos info)"
    and nc: "A \<notin> set (disciplinas_concluidas_ids cfg)"
    and inA: "A \<in> set (todas (preparar_disciplinas_a_cursar cfg))"
    and inB: "B \<in> set (todas (preparar_disciplinas_a_cursar cfg))"
    and k: "k \<in> set alocacao" "fst k = B" "\<sigma> (chave_var k) = 1"
  shows "(\<exists>k'\<in>set alocacao. fst k' = A \<and> \<sigma> (chave_var k') = 1) \<and> \<sigma> (Semestre A) < \<sigma> (Semestre B)"
proof -
  let ?dac = "preparar_disciplinas_a_cursar cfg"
  let ?SB = "sum_list (map (\<lambda>k. \<sigma> (chave_var k)) (vars_de alocacao B))"
  let ?SA = "sum_list (map (\<lambda>k. \<sigma> (chave_var k)) (vars_de alocacao A))"
  have bin: "\<And>k. k \<in> set alocacao \<Longrightarrow> 0 \<le> \<sigma> (chave_var k) \<and> \<sigma> (chave_var k) \<le> 1"
    using binarias_servico [OF f] al by simp
  have kB: "k \<in> set (vars_de alocacao B)" using k by (simp add: vars_de_def)
  then have vB: "vars_de alocacao B \<noteq> []" by auto
  have "1 \<le> ?SB"
    using kB k(3) by (intro soma_binarias_ge [where k = k]) (simp_all add: vars_de_def bin)
  moreover have "?SB \<le> 1"
    using no_maximo_uma_vez_servico [OF f inB] vB al by simp
  ultimately have SB: "?SB = 1" by simp
  have cB: "eval \<sigma> (cursada_var alocacao B) = 1"
    using vB SB by (simp add: cursada_var_def eval_soma_vars)
  have par: "set (restricoes_par cfg alocacao B A) \<subseteq> set (restricoes (construir_modelo lower cfg))"
    using info pre nc inA inB al
    by (auto simp add: restricoes_construir_modelo Let_def adicionar_restricao_prerequisitos_def
             split: option.splits)
  have c1: "holds \<sigma> (Constr (cursada_var alocacao A) GE (cursada_var alocacao B))"
    using par by (intro feasible_holds [OF f]) (auto simp add: restricoes_par_def Let_def)
  have c2: "holds \<sigma> (Constr (Sub (Var (Semestre B)) (Var (Semestre A))) GE
                 (Sub (Const 1) (Mul (of_int (num_semestres_total cfg + 2))
                    (Sub (Const 1) (cursada_var alocacao B)))))"
    using par by (intro feasible_holds [OF f]) (auto simp add: restricoes_par_def Let_def)
  have vA: "vars_de alocacao A \<noteq> []"
  proof
    assume e: "vars_de alocacao A = []"
    then have "(Cursada A, 0, 0) \<in> set (variaveis (construir_modelo lower cfg))"
      using inA al by (auto simp add: variaveis_construir_modelo Let_def variaveis_decisao_def)
    with feasible_bounds [OF f] have "\<sigma> (Cursada A) = 0" by fastforce
    with c1 cB e show False by (simp add: cursada_var_def)
  qed
  from c1 cB vA have "(1::rat) \<le> of_int ?SA"
    by (simp add: cursada_var_def eval_soma_vars)
  then have "1 \<le> ?SA" by (metis of_int_1_le_iff)
  then have "\<exists>k'\<in>set (vars_de alocacao A). \<sigma> (chave_var k') = 1"
    by (intro soma_binarias_ex) (simp_all add: vars_de_def bin)
  then obtain k' where "k' \<in> set (vars_de alocacao A)" and "\<sigma> (chave_var k') = 1"
    by blast
  then have taken: "\<exists>k'\<in>set alocacao. fst k' = A \<and> \<sigma> (chave_var k') = 1"
    by (intro bexI [of _ k']) (simp_all add: vars_de_def)
  from c2 cB have "(1::rat) \<le> of_int (\<sigma> (Semestre B)) - of_int (\<sigma> (Semestre A))"
    by simp
  then have "(of_int (\<sigma> (Semestre A) + 1) :: rat) \<le> of_int (\<sigma> (Semestre B))"
    by simp
  then have "\<sigma> (Semestre A) + 1 \<le> \<sigma> (Semestre B)"
    by (simp only: of_int_le_iff)
  with taken show ?thesis by simp
qed

section \<open>The constraints of the backend model\<close>

lemma modelo_scip_forma:
  assumes "modelo_scip dd minimos n c cs = Inr m"
  shows "\<exists>r3. m =
     \<lparr>variaveis =
        map (\<lambda>k. (chave_var k, 0, 1)) (alocacao_scip dd n cs)
        @ map (\<lambda>d_id. (Semestre d_id, 1, n + 1))
              (filter (\<lambda>d_id. d_id \<notin> set cs) (map fst (disciplinas dd)))
        @ [(SemestreMaximo, 1, n)],
      restricoes =
        restricoes_R1_1 dd (alocacao_scip dd n cs) cs
        @ restricoes_R1_2 dd (alocacao_scip dd n cs) cs
        @ restricoes_R2 dd n (alocacao_scip dd n cs) cs
        @ r3
        @ restricoes_R4 dd n (alocacao_scip dd n cs) cs
        @ restricoes_R5 dd n (alocacao_scip dd n cs)
        @ restricoes_R6 dd n c (alocacao_scip dd n cs) cs
        @ restricoes_R7 dd n (alocacao_scip dd n cs) cs
        @ restricoes_objetivo dd n (alocacao_scip dd n cs) cs,
      objetivo = Var SemestreMaximo\<rparr>"
  using assms by (auto simp add: modelo_scip_def Let_def split: sum.splits)

lemma modelo_scip_Inr:
  assumes "modelo_scip dd minimos n c cs = Inr m"
  shows "k \<in> set (alocacao_scip dd n cs) \<Longrightarrow> (chave_var k, 0, 1) \<in> set (variaveis m)"
    and "set (restricoes_R1_1 dd (alocacao_scip dd n cs) cs) \<subseteq> set (restricoes m)"
    and "set (restricoes_R1_2 dd (alocacao_scip dd n cs) cs) \<subseteq> set (restricoes m)"
    and "set (restricoes_R2 dd n (alocacao_scip dd n cs) cs) \<subseteq> set (restricoes m)"
    and "set (restricoes_R4 dd n (alocacao_scip dd n cs) cs) \<subseteq> set (restricoes m)"
    and "set (restricoes_R6 dd n c (alocacao_scip dd n cs) cs) \<subseteq> set (restricoes m)"
    and "set (restricoes_R7 dd n (alocacao_scip dd n cs) cs) \<subseteq> set (restricoes m)"
  using modelo_scip_forma [OF assms] by auto

lemma binarias_scip:
  assumes "modelo_scip dd minimos n c cs = Inr m" and "feasible m \<sigma>"
    and "k \<in> set (alocacao_scip dd n cs)"
  shows "0 \<le> \<sigma> (chave_var k) \<and> \<sigma> (chave_var k) \<le> 1"
proof -
  have "(chave_var k, 0, 1) \<in> set (variaveis m)"
    using assms(3) by (rule modelo_scip_Inr(1) [OF assms(1)])
  with feasible_bounds [OF assms(2)] show ?thesis by blast
qed

text \<open>Prerequisites in the backend model.\<close>

lemma prerequisito_scip:
  assumes m: "modelo_scip dd minimos n c cs = Inr m" and f: "feasible m \<sigma>"
    and al: "alocacao = alocacao_scip dd n cs"
    and B: "(B, info) \<in> set (disciplinas dd)"
    and pre: "A \<in> set (prerequisitos info)"
    and inA: "has_key (disciplinas dd) A"
    and nc: "A \<notin> set cs"
    and k: "k \<in> set alocacao" "fst k = B" "\<sigma> (chave_var k) = 1"
  shows "(\<exists>k'\<in>set alocacao. fst k' = A \<and> \<sigma> (chave_var k') = 1) \<and> \<sigma> (Semestre A) < \<sigma> (Semestre B)"
proof -
  let ?SB = "sum_list (map (\<lambda>k. \<sigma> (chave_var k)) (vars_de alocacao B))"
  let ?SA = "sum_list (map (\<lambda>k. \<sigma> (chave_var k)) (vars_de alocacao A))"
  have bin: "\<And>k. k \<in> set alocacao \<Longrightarrow> 0 \<le> \<sigma> (chave_var k) \<and> \<sigma> (chave_var k) \<le> 1"
    using binarias_scip [OF m f] al by simp
  obtain s t where kk: "k = (B, s, t)" using k(2) by (cases k) auto
  with k(1) al have Bnc: "B \<notin> set cs" and n0: "0 \<le> n + 1"
    by (auto simp add: set_alocacao_scip)
  have kB: "k \<in> set (vars_de alocacao B)" using k by (simp add: vars_de_def)
  have SB: "1 \<le> ?SB"
    using kB k(3) by (intro soma_binarias_ge [where k = k]) (simp_all add: vars_de_def bin)
  have par: "set (restricoes_par_scip n alocacao cs B A) \<subseteq> set (restricoes m)"
  proof -
    have "set (restricoes_par_scip n alocacao cs B A) \<subseteq> set (restricoes_R4 dd n alocacao cs)"
    proof
      fix x assume x: "x \<in> set (restricoes_par_scip n alocacao cs B A)"
      have "x \<in> set (concat (map (\<lambda>prereq_id.
               if \<not> has_key (disciplinas dd) prereq_id then []
               else restricoes_par_scip n alocacao cs B prereq_id) (prerequisitos info)))"
        using x pre inA by auto
      then show "x \<in> set (restricoes_R4 dd n alocacao cs)"
        unfolding restricoes_R4_def using B Bnc by force
    qed
    with modelo_scip_Inr(5) [OF m] al show ?thesis by blast
  qed
  have c1: "holds \<sigma> (Constr (soma_vars (vars_de alocacao A)) GE (soma_vars (vars_de alocacao B)))"
    using par nc Bnc
    by (intro feasible_holds [OF f])
       (auto simp add: restricoes_par_scip_def Let_def cursada_scip_def soma_vars_def)
  have c2: "holds \<sigma> (Constr (Sub (Var (Semestre B)) (Var (Semestre A))) GE
                 (Sub (Const 1) (Mul (of_int (n + 1))
                    (Sub (Const 1) (soma_vars (vars_de alocacao B))))))"
    using par nc Bnc
    by (intro feasible_holds [OF f])
       (auto simp add: restricoes_par_scip_def Let_def cursada_scip_def semestre_scip_def)
  from c1 have "(of_int ?SB :: rat) \<le> of_int ?SA"
    by (simp add: eval_soma_vars)
  then have "?SB \<le> ?SA" by (simp only: of_int_le_iff)
  with SB have "1 \<le> ?SA" by simp
  then have "\<exists>k'\<in>set (vars_de alocacao A). \<sigma> (chave_var k') = 1"
    by (intro soma_binarias_ex) (simp_all add: vars_de_def bin)
  then obtain k' where "k' \<in> set (vars_de alocacao A)" and "\<sigma> (chave_var k') = 1"
    by blast
  then have taken: "\<exists>k'\<in>set alocacao. fst k' = A \<and> \<sigma> (chave_var k') = 1"
    by (intro bexI [of _ k']) (simp_all add: vars_de_def)
  from c2 have "(of_int (1 - (n + 1) * (1 - ?SB)) :: rat) \<le> of_int (\<sigma> (Semestre B) - \<sigma> (Semestre A))"
    by (simp add: eval_soma_vars)
  then have i: "1 - (n + 1) * (1 - ?SB) \<le> \<sigma> (Semestre B) - \<sigma> (Semestre A)"
    by (simp only: of_int_le_iff)
  have "(n + 1) * (1 - ?SB) \<le> 0"
    using n0 SB by (intro mult_nonneg_nonpos) simp_all
  with i have "\<sigma> (Semestre A) < \<sigma> (Semestre B)" by linarith
  with taken show ?thesis by simp
qed


section \<open>Prerequisites\<close>

text \<open>
  C3.  Let course \<open>B\<close> list the prerequisite \<open>A\<close>, \<open>A\<close> not completed, both in scope of the
  model.  In every solution that respects the bounds and constraints of the model (the
  solutions returned with status OPTIMAL or FEASIBLE), if some allocation variable of \<open>B\<close>
  has the value 1 then some allocation variable of \<open>A\<close> has the value 1 and the completion
  term of \<open>A\<close> is smaller than the completion term of \<open>B\<close>.  First conjunct: the services
  builder, where in scope means among the courses still to take; second conjunct: the
  backend builder, where in scope means a course of the catalogue.
\<close>

theorem prerequisito_antes:
  "(feasible (construir_modelo lower cfg) \<sigma>
      \<and> map_of (disciplinas (dados cfg)) B = Some info
      \<and> A \<in> set (prerequisitos info)
      \<and> A \<notin> set (disciplinas_concluidas_ids cfg)
      \<and> A \<in> set (todas (preparar_disciplinas_a_cursar cfg))
      \<and> B \<in> set (todas (preparar_disciplinas_a_cursar cfg))
      \<and> k \<in> set (criar_alocacao cfg (todas (preparar_disciplinas_a_cursar cfg)))
      \<and> fst k = B \<and> \<sigma> (chave_var k) = 1
    \<longrightarrow> (\<exists>k'\<in>set (criar_alocacao cfg (todas (preparar_disciplinas_a_cursar cfg))).
            fst k' = A \<and> \<sigma> (chave_var k') = 1)
        \<and> \<sigma> (Semestre A) < \<sigma> (Semestre B))
   \<and> (modelo_scip dd minimos n c cs = Inr m \<and> feasible m \<sigma>
      \<and> (B, info) \<in> set (disciplinas dd)
      \<and> A \<in> set (prerequisitos info)
      \<and> has_key (disciplinas dd) A
      \<and> A \<notin> set cs
      \<and> k \<in> set (alocacao_scip dd n cs)
      \<and> fst k = B \<and> \<sigma> (chave_var k) = 1
    \<longrightarrow> (\<exists>k'\<in>set (alocacao_scip dd n cs). fst k' = A \<and> \<sigma> (chave_var k') = 1)
        \<and> \<sigma> (Semestre A) < \<sigma> (Semestre B))"
proof (intro conjI impI)
  assume h: "feasible (construir_modelo lower cfg) \<sigma>
      \<and> map_of (disciplinas (dados cfg)) B = Some info
      \<and> A \<in> set (prerequisitos info)
      \<and> A \<notin> set (disciplinas_concluidas_ids cfg)
      \<and> A \<in> set (todas (preparar_disciplinas_a_cursar cfg))
      \<and> B \<in> set (todas (preparar_disciplinas_a_cursar cfg))
      \<and> k \<in> set (criar_alocacao cfg (todas (preparar_disciplinas_a_cursar cfg)))
      \<and> fst k = B \<and> \<sigma> (chave_var k) = 1"
  from h prerequisito_servico [of lower cfg \<sigma> _ B info A k, OF _ refl]
  show "\<exists>k'\<in>set (criar_alocacao cfg (todas (preparar_disciplinas_a_cursar cfg))).
            fst k' = A \<and> \<sigma> (chave_var k') = 1"
    and "\<sigma> (Semestre A) < \<sigma> (Semestre B)"
    by blast+
next
  assume h: "modelo_scip dd minimos n c cs = Inr m \<and> feasible m \<sigma>
      \<and> (B, info) \<in> set (disciplinas dd)
      \<and> A \<in> set (prerequisitos info)
      \<and> has_key (disciplinas dd) A
      \<and> A \<notin> set cs
      \<and> k \<in> set (alocacao_scip dd n cs)
      \<and> fst k = B \<and> \<sigma> (chave_var k) = 1"
  from h prerequisito_scip [of dd minimos n c cs m \<sigma> _ B info A k, OF _ _ refl]
  show "\<exists>k'\<in>set (alocacao_scip dd n cs). fst k' = A \<and> \<sigma> (chave_var k') = 1"
    and "\<sigma> (Semestre A) < \<sigma> (Semestre B)"
    by blast+
qed

lemma feasible_servico_B: "feasible (construir_modelo ascii_lower config_B) sol_B"
  by code_simp

lemma modelo_scip_B_feasible:
  "(case modelo_scip dados_B minimos_zero 2 32 [] of Inl e \<Rightarrow> False | Inr m \<Rightarrow> feasible m sol_B)"
  by code_simp

theorem prerequisito_antes_witness:
  "((\<exists>k'\<in>set (criar_alocacao config_B (todas (preparar_disciplinas_a_cursar config_B))).
        fst k' = ''X'' \<and> sol_B (chave_var k') = 1)
     \<and> sol_B (Semestre ''X'') < sol_B (Semestre ''Y''))
   \<and> ((\<exists>k'\<in>set (alocacao_scip dados_B 2 []). fst k' = ''X'' \<and> sol_B (chave_var k') = 1)
     \<and> sol_B (Semestre ''X'') < sol_B (Semestre ''Y''))"
proof -
  let ?info = "\<lparr>nome = ''Calculo 2'', creditos = 4, tipo = Some ''2 Periodo'',
                 prerequisitos = [''X'']\<rparr>"
  let ?k = "(''Y'', 2 :: int, ''T2'')"
  obtain m where m: "modelo_scip dados_B minimos_zero 2 32 [] = Inr m" and fm: "feasible m sol_B"
    using modelo_scip_B_feasible by (auto split: sum.splits)
  have s1: "map_of (disciplinas (dados config_B)) ''Y'' = Some ?info"
    by (simp add: config_B_def dados_B_def)
  have s2: "''X'' \<in> set (prerequisitos ?info)" by simp
  have s3: "''X'' \<notin> set (disciplinas_concluidas_ids config_B)" by (simp add: config_B_def)
  have s4: "''X'' \<in> set (todas (preparar_disciplinas_a_cursar config_B))" by code_simp
  have s5: "''Y'' \<in> set (todas (preparar_disciplinas_a_cursar config_B))" by code_simp
  have s6: "?k \<in> set (criar_alocacao config_B (todas (preparar_disciplinas_a_cursar config_B)))"
    by code_simp
  have s7: "fst ?k = ''Y''" by simp
  have s8: "sol_B (chave_var ?k) = 1" by (simp add: sol_B_def chave_var_def)
  have b1: "(''Y'', ?info) \<in> set (disciplinas dados_B)" by (simp add: dados_B_def)
  have b2: "has_key (disciplinas dados_B) ''X''" by (simp add: has_key_def dados_B_def)
  have b3: "''X'' \<notin> set ([] :: did list)" by simp
  have b4: "?k \<in> set (alocacao_scip dados_B 2 [])" by code_simp
  from prerequisito_antes [of ascii_lower config_B sol_B "''Y''" ?info "''X''" ?k
      dados_B minimos_zero 2 32 "[]" m]
    feasible_servico_B s1 s2 s3 s4 s5 s6 s7 s8 m fm b1 b2 b3 b4
  show ?thesis by blast
qed

section \<open>Credits per term\<close>

lemma soma_por_chave:
  fixes h :: "'b \<Rightarrow> int"
  assumes "distinct (map fst ds)"
  shows "(\<Sum>dc\<leftarrow>ds. if fst dc = x then h (snd dc) else 0) =
           (case map_of ds x of None \<Rightarrow> 0 | Some info \<Rightarrow> h info)"
  using assms
proof (induction ds)
  case Nil
  then show ?case by simp
next
  case (Cons a ds)
  show ?case
  proof (cases "fst a = x")
    case True
    with Cons.prems have "map_of ds x = None"
      by (simp add: map_of_eq_None_iff)
    with Cons True show ?thesis by (cases a) simp
  next
    case False
    with Cons show ?thesis by (cases a) auto
  qed
qed

text \<open>The credits that a solution places in term \<open>s\<close>, summed over the allocation
  variables of the term.\<close>

lemma creditos_por_disciplina_e_por_chave:
  fixes \<sigma> :: solution
  assumes "distinct (map fst ds)"
  shows "(\<Sum>dc\<leftarrow>ds. creditos (snd dc) * (\<Sum>k\<leftarrow>vars_de_em alocacao (fst dc) s. \<sigma> (chave_var k))) =
         (\<Sum>k\<leftarrow>alocacao_em alocacao s.
             case map_of ds (fst k) of None \<Rightarrow> 0 | Some info \<Rightarrow> creditos info * \<sigma> (chave_var k))"
proof (induction alocacao)
  case Nil
  then show ?case by (simp add: vars_de_em_def alocacao_em_def)
next
  case (Cons k alocacao)
  show ?case
  proof (cases "fst (snd k) = s")
    case False
    then have "\<And>d. vars_de_em (k # alocacao) d s = vars_de_em alocacao d s"
      and "alocacao_em (k # alocacao) s = alocacao_em alocacao s"
      by (simp_all add: vars_de_em_def alocacao_em_def)
    with Cons show ?thesis by simp
  next
    case True
    have "(\<Sum>dc\<leftarrow>ds. creditos (snd dc) * (\<Sum>k\<leftarrow>vars_de_em (k # alocacao) (fst dc) s. \<sigma> (chave_var k)))
        = (\<Sum>dc\<leftarrow>ds. (if fst dc = fst k then creditos (snd dc) * \<sigma> (chave_var k) else 0)
                     + creditos (snd dc) * (\<Sum>k\<leftarrow>vars_de_em alocacao (fst dc) s. \<sigma> (chave_var k)))"
      using True by (intro arg_cong [where f = sum_list] map_cong refl)
                    (auto simp add: vars_de_em_def distrib_left)
    also have "\<dots> = (\<Sum>dc\<leftarrow>ds. if fst dc = fst k then creditos (snd dc) * \<sigma> (chave_var k) else 0)
                   + (\<Sum>dc\<leftarrow>ds. creditos (snd dc) * (\<Sum>k\<leftarrow>vars_de_em alocacao (fst dc) s. \<sigma> (chave_var k)))"
      by (simp add: sum_list_addf)
    also have "(\<Sum>dc\<leftarrow>ds. if fst dc = fst k then creditos (snd dc) * \<sigma> (chave_var k) else 0)
        = (case map_of ds (fst k) of None \<Rightarrow> 0 | Some info \<Rightarrow> creditos info * \<sigma> (chave_var k))"
      by (rule soma_por_chave [OF assms])
    finally show ?thesis using True Cons by (simp add: alocacao_em_def)
  qed
qed

lemma dict_update_Inr:
  assumes "dict_update k f m = Inr m'"
  shows "map fst m' = map fst m"
    and "map_of m' x = (if x = k then map_option f (map_of m x) else map_of m x)"
proof -
  from assms have m': "m' = map (\<lambda>kv. if fst kv = k then (fst kv, f (snd kv)) else kv) m"
    by (simp add: dict_update_def split: if_splits)
  show "map fst m' = map fst m" unfolding m' by (induction m) auto
  show "map_of m' x = (if x = k then map_option f (map_of m x) else map_of m x)"
    unfolding m' by (induction m) auto
qed

lemma dict_update_has_key: "has_key m k \<Longrightarrow> \<exists>m'. dict_update k f m = Inr m'"
  by (simp add: dict_update_def)

text \<open>The credit that the decoder of the services adds to its term for one allocation
  variable.\<close>

lemma fold_processar_passo:
  assumes "fold (processar_passo cfg \<sigma>) alocacao (Inr (g0, c0)) = Inr (g, c)"
  shows "map fst c = map fst c0 \<and>
         map_of c s = map_option (\<lambda>x. x + (\<Sum>k\<leftarrow>alocacao_em alocacao s.
             if escolhida \<sigma> k
             then (case map_of (disciplinas (dados cfg)) (fst k) of None \<Rightarrow> 0 | Some info \<Rightarrow> creditos info)
             else 0)) (map_of c0 s)"
  using assms
proof (induction alocacao arbitrary: g0 c0)
  case Nil
  then show ?case by (simp add: alocacao_em_def option.map_ident)
next
  case (Cons k alocacao)
  have nl: "\<And>e. fold (processar_passo cfg \<sigma>) alocacao (Inl e) = Inl e"
    by (induction alocacao) (simp_all add: processar_passo_def)
  obtain d sk t where k: "k = (d, sk, t)" by (cases k) auto
  from Cons.prems nl obtain g1 c1 where
    step: "processar_passo cfg \<sigma> k (Inr (g0, c0)) = Inr (g1, c1)"
    and rest: "fold (processar_passo cfg \<sigma>) alocacao (Inr (g1, c1)) = Inr (g, c)"
    by (cases "processar_passo cfg \<sigma> k (Inr (g0, c0))") auto
  note ih = Cons.IH [OF rest]
  show ?case
  proof (cases "escolhida \<sigma> k")
    case False
    with step k have "c1 = c0" by (simp add: processar_passo_def)
    with ih False show ?thesis by (simp add: alocacao_em_def)
  next
    case True
    show ?thesis
    proof (cases "map_of (disciplinas (dados cfg)) d")
      case None
      with step k True have "c1 = c0" by (simp add: processar_passo_def)
      with ih True None k show ?thesis by (simp add: alocacao_em_def)
    next
      case (Some info)
      with step k True have u: "dict_update sk (\<lambda>c. c + creditos info) c0 = Inr c1"
        by (auto simp add: processar_passo_def Let_def split: sum.splits)
      note du = dict_update_Inr [OF u]
      show ?thesis
      proof (cases "sk = s")
        case True
        with ih du \<open>escolhida \<sigma> k\<close> Some k show ?thesis
          by (cases "map_of c0 s") (simp_all add: alocacao_em_def)
      next
        case False
        with ih du \<open>escolhida \<sigma> k\<close> Some k show ?thesis
          by (simp add: alocacao_em_def)
      qed
    qed
  qed
qed
lemma escolhida_binaria:
  fixes \<sigma> :: solution
  assumes "0 \<le> \<sigma> (chave_var k)" and "\<sigma> (chave_var k) \<le> 1"
  shows "escolhida \<sigma> k \<longleftrightarrow> \<sigma> (chave_var k) = 1"
proof -
  from assms have "\<sigma> (chave_var k) = 0 \<or> \<sigma> (chave_var k) = 1" by linarith
  then show ?thesis by (auto simp add: escolhida_def)
qed

lemma creditos_escolhidos:
  fixes \<sigma> :: solution
  assumes "\<And>k. k \<in> set alocacao \<Longrightarrow> 0 \<le> \<sigma> (chave_var k) \<and> \<sigma> (chave_var k) \<le> 1"
  shows "(\<Sum>k\<leftarrow>alocacao_em alocacao s.
             if escolhida \<sigma> k
             then (case map_of ds (fst k) of None \<Rightarrow> 0 | Some info \<Rightarrow> creditos info)
             else 0) =
         (\<Sum>k\<leftarrow>alocacao_em alocacao s.
             case map_of ds (fst k) of None \<Rightarrow> 0 | Some info \<Rightarrow> creditos info * \<sigma> (chave_var k))"
proof (intro arg_cong [where f = sum_list] map_cong refl)
  fix k assume "k \<in> set (alocacao_em alocacao s)"
  then have k: "k \<in> set alocacao" by (simp add: alocacao_em_def)
  from assms [OF k] have "\<sigma> (chave_var k) = 0 \<or> \<sigma> (chave_var k) = 1" by linarith
  then show "(if escolhida \<sigma> k
             then (case map_of ds (fst k) of None \<Rightarrow> 0 | Some info \<Rightarrow> creditos info)
             else 0) =
            (case map_of ds (fst k) of None \<Rightarrow> 0 | Some info \<Rightarrow> creditos info * \<sigma> (chave_var k))"
    by (auto simp add: escolhida_def split: option.splits)
qed

lemma eval_soma_creditos:
  "eval \<sigma> (Sum (map (\<lambda>dc. Mul (of_int (creditos (snd dc))) (soma_vars (ks dc))) xs)) =
     of_int (\<Sum>dc\<leftarrow>xs. creditos (snd dc) * (\<Sum>k\<leftarrow>ks dc. \<sigma> (chave_var k)))"
  by (induction xs) (simp_all add: eval_soma_vars)

lemma eval_termos_de_credito:
  "eval \<sigma> (Sum (termos_de_credito dd alocacao s)) =
     of_int (\<Sum>dc\<leftarrow>disciplinas dd. creditos (snd dc) * (\<Sum>k\<leftarrow>vars_de_em alocacao (fst dc) s. \<sigma> (chave_var k)))"
proof -
  have "(\<Sum>dc\<leftarrow>filter (\<lambda>dc. vars_de_em alocacao (fst dc) s \<noteq> []) (disciplinas dd).
            creditos (snd dc) * (\<Sum>k\<leftarrow>vars_de_em alocacao (fst dc) s. \<sigma> (chave_var k)))
      = (\<Sum>dc\<leftarrow>disciplinas dd. creditos (snd dc) * (\<Sum>k\<leftarrow>vars_de_em alocacao (fst dc) s. \<sigma> (chave_var k)))"
    by (rule sum_list_map_filter) simp
  then show ?thesis
    unfolding termos_de_credito_def by (simp only: eval_soma_creditos)
qed
lemma limite_creditos_servico:
  assumes f: "feasible (construir_modelo lower cfg) \<sigma>"
    and al: "alocacao = criar_alocacao cfg (todas (preparar_disciplinas_a_cursar cfg))"
    and s: "s \<in> set (semestres cfg)"
  shows "(\<Sum>dc\<leftarrow>disciplinas (dados cfg).
            creditos (snd dc) * (\<Sum>k\<leftarrow>vars_de_em alocacao (fst dc) s. \<sigma> (chave_var k)))
         \<le> creditos_maximos_por_semestre cfg"
proof -
  let ?T = "\<Sum>dc\<leftarrow>disciplinas (dados cfg).
            creditos (snd dc) * (\<Sum>k\<leftarrow>vars_de_em alocacao (fst dc) s. \<sigma> (chave_var k))"
  have ev: "eval \<sigma> (Sum (termos_de_credito (dados cfg) alocacao s)) = of_int ?T"
    by (rule eval_termos_de_credito)
  have "Constr (creditos_cursados_no_semestre (dados cfg) alocacao s) LE
          (Const (of_int (creditos_maximos_por_semestre cfg)))
        \<in> set (restricoes (construir_modelo lower cfg))"
    using s al
    by (simp add: restricoes_construir_modelo Let_def adicionar_restricao_limite_creditos_def)
  from feasible_holds [OF f this]
  have h: "eval \<sigma> (creditos_cursados_no_semestre (dados cfg) alocacao s)
             \<le> of_int (creditos_maximos_por_semestre cfg)"
    by simp
  show ?thesis
  proof (cases "termos_de_credito (dados cfg) alocacao s = []")
    case False
    with h ev have "(of_int ?T :: rat) \<le> of_int (creditos_maximos_por_semestre cfg)"
      by (simp add: creditos_cursados_no_semestre_def)
    then show ?thesis by (simp only: of_int_le_iff)
  next
    case True
    with ev have "(of_int ?T :: rat) = 0" by simp
    then have z: "?T = 0" by (simp only: of_int_eq_0_iff)
    have "(CreditosS s, 0, 0) \<in> set (variaveis (construir_modelo lower cfg))"
      using s al True
      by (simp add: variaveis_construir_modelo Let_def variaveis_limite_creditos_def)
    with feasible_bounds [OF f] have "\<sigma> (CreditosS s) = 0" by fastforce
    with h True have "(0 :: rat) \<le> of_int (creditos_maximos_por_semestre cfg)"
      by (simp add: creditos_cursados_no_semestre_def)
    then have "0 \<le> creditos_maximos_por_semestre cfg" by simp
    with z show ?thesis by simp
  qed
qed

lemma creditos_resultado_servico:
  assumes f: "feasible (construir_modelo lower cfg) \<sigma>"
    and dist: "distinct (map fst (disciplinas (dados cfg)))"
    and st: "st = OPTIMAL \<or> st = FEASIBLE"
    and res: "resolver lower cfg (st, \<sigma>) = Inr r"
  shows "map fst (creditos_por_semestre r) = semestres cfg
         \<and> list_all (\<lambda>sc. snd sc \<le> creditos_maximos_por_semestre cfg) (creditos_por_semestre r)"
proof -
  let ?al = "criar_alocacao cfg (todas (preparar_disciplinas_a_cursar cfg))"
  let ?g0 = "map (\<lambda>s. (s, [])) (semestres cfg) :: (int \<times> disciplina_alocada list) list"
  let ?c0 = "map (\<lambda>s. (s, 0)) (semestres cfg) :: (int \<times> int) list"
  from res st obtain g c where
    fo: "fold (processar_passo cfg \<sigma>) ?al (Inr (?g0, ?c0)) = Inr (g, c)"
    and r: "creditos_por_semestre r = c"
    by (auto simp add: resolver_def processar_resultados_def Let_def split: sum.splits)
  have keys: "map fst c = semestres cfg"
    using fold_processar_passo [OF fo] by (simp add: comp_def)
  have bin: "\<And>k. k \<in> set ?al \<Longrightarrow> 0 \<le> \<sigma> (chave_var k) \<and> \<sigma> (chave_var k) \<le> 1"
    using binarias_servico [OF f] by simp
  have "snd sc \<le> creditos_maximos_por_semestre cfg" if sc: "sc \<in> set c" for sc
  proof -
    obtain s total where p: "sc = (s, total)" by (cases sc) auto
    from sc p have "s \<in> set (map fst c)" by (metis fst_conv image_eqI set_map)
    with keys have sin: "s \<in> set (semestres cfg)" by simp
    have "distinct (map fst c)" using keys by (simp add: semestres_def)
    with sc p have mc: "map_of c s = Some total" by simp
    have m0: "map_of ?c0 s = Some 0"
      using sin by (simp add: map_of_map_restrict restrict_map_def)
    from fold_processar_passo [OF fo, of s] mc m0
    have "total = (\<Sum>k\<leftarrow>alocacao_em ?al s.
             if escolhida \<sigma> k
             then (case map_of (disciplinas (dados cfg)) (fst k) of None \<Rightarrow> 0 | Some info \<Rightarrow> creditos info)
             else 0)"
      by simp
    also have "\<dots> = (\<Sum>k\<leftarrow>alocacao_em ?al s.
             case map_of (disciplinas (dados cfg)) (fst k) of None \<Rightarrow> 0
             | Some info \<Rightarrow> creditos info * \<sigma> (chave_var k))"
      by (rule creditos_escolhidos) (rule bin)
    also have "\<dots> = (\<Sum>dc\<leftarrow>disciplinas (dados cfg).
            creditos (snd dc) * (\<Sum>k\<leftarrow>vars_de_em ?al (fst dc) s. \<sigma> (chave_var k)))"
      by (rule creditos_por_disciplina_e_por_chave [OF dist, symmetric])
    also have "\<dots> \<le> creditos_maximos_por_semestre cfg"
      by (rule limite_creditos_servico [OF f refl sin])
    finally show ?thesis using p by simp
  qed
  with keys r show ?thesis by (simp add: list_all_iff)
qed
lemma fold_passo_scip:
  assumes "fold (passo_scip dd \<sigma>) alocacao (Inr (g0, c0, t0)) = Inr (g, c, t)"
  shows "map fst g = map fst g0 \<and> map fst c = map fst c0 \<and>
         map_of c s = map_option (\<lambda>x. x + (\<Sum>k\<leftarrow>alocacao_em alocacao s.
             if escolhida \<sigma> k
             then (case map_of (disciplinas dd) (fst k) of None \<Rightarrow> 0 | Some info \<Rightarrow> creditos info)
             else 0)) (map_of c0 s)"
  using assms
proof (induction alocacao arbitrary: g0 c0 t0)
  case Nil
  then show ?case by (simp add: alocacao_em_def option.map_ident)
next
  case (Cons k alocacao)
  have nl: "\<And>e. fold (passo_scip dd \<sigma>) alocacao (Inl e) = Inl e"
    by (induction alocacao) (simp_all add: passo_scip_def)
  obtain d sk tk where k: "k = (d, sk, tk)" by (cases k) auto
  from Cons.prems nl obtain g1 c1 t1 where
    step: "passo_scip dd \<sigma> k (Inr (g0, c0, t0)) = Inr (g1, c1, t1)"
    and rest: "fold (passo_scip dd \<sigma>) alocacao (Inr (g1, c1, t1)) = Inr (g, c, t)"
    by (cases "passo_scip dd \<sigma> k (Inr (g0, c0, t0))") auto
  note ih = Cons.IH [OF rest]
  show ?case
  proof (cases "escolhida \<sigma> k")
    case False
    with step k have "c1 = c0" and "g1 = g0" by (simp_all add: passo_scip_def)
    with ih False show ?thesis by (simp add: alocacao_em_def)
  next
    case True
    with step k obtain info where Some: "map_of (disciplinas dd) d = Some info"
      by (cases "map_of (disciplinas dd) d") (simp_all add: passo_scip_def)
    with step k True have u: "dict_update sk (\<lambda>c. c + creditos info) c0 = Inr c1"
      and ug: "dict_update sk (\<lambda>l. l @ [DisciplinaObj d (nome info) tk
                 (get_list (horarios_por_turma dd) tk) (creditos info) (tipo info)]) g0 = Inr g1"
      by (auto simp add: passo_scip_def Let_def split: sum.splits)
    note du = dict_update_Inr [OF u]
    note dg = dict_update_Inr(1) [OF ug]
    show ?thesis
    proof (cases "sk = s")
      case True
      with ih du dg \<open>escolhida \<sigma> k\<close> Some k show ?thesis
        by (cases "map_of c0 s") (simp_all add: alocacao_em_def)
    next
      case False
      with ih du dg \<open>escolhida \<sigma> k\<close> Some k show ?thesis
        by (simp add: alocacao_em_def)
    qed
  qed
qed

lemma limite_creditos_scip:
  assumes m: "modelo_scip dd minimos n c cs = Inr m" and f: "feasible m \<sigma>"
    and al: "alocacao = alocacao_scip dd n cs"
    and c0: "0 \<le> c"
    and s: "s \<in> set [1..n]"
  shows "(\<Sum>dc\<leftarrow>disciplinas dd.
            creditos (snd dc) * (\<Sum>k\<leftarrow>vars_de_em alocacao (fst dc) s. \<sigma> (chave_var k))) \<le> c"
proof -
  let ?T = "\<Sum>dc\<leftarrow>disciplinas dd.
            creditos (snd dc) * (\<Sum>k\<leftarrow>vars_de_em alocacao (fst dc) s. \<sigma> (chave_var k))"
  have vazio: "vars_de_em alocacao d s = []" if "d \<in> set cs" for d
    using that al by (auto simp add: vars_de_em_def filter_empty_conv set_alocacao_scip)
  have "(\<Sum>dc\<leftarrow>filter (\<lambda>dc. fst dc \<notin> set cs \<and> vars_de_em alocacao (fst dc) s \<noteq> []) (disciplinas dd).
            creditos (snd dc) * (\<Sum>k\<leftarrow>vars_de_em alocacao (fst dc) s. \<sigma> (chave_var k))) = ?T"
    by (rule sum_list_map_filter) (auto simp add: vazio)
  then have ev: "eval \<sigma> (Sum (termos_de_credito_scip dd alocacao cs s)) = of_int ?T"
    unfolding termos_de_credito_scip_def by (simp only: eval_soma_creditos)
  show ?thesis
  proof (cases "termos_de_credito_scip dd alocacao cs s = []")
    case True
    with ev have "(of_int ?T :: rat) = 0" by simp
    then have "?T = 0" by (simp only: of_int_eq_0_iff)
    with c0 show ?thesis by simp
  next
    case False
    with s have "Constr (Sum (termos_de_credito_scip dd alocacao cs s)) LE (Const (of_int c))
        \<in> set (restricoes_R6 dd n c alocacao cs)"
      by (simp add: restricoes_R6_def)
    with modelo_scip_Inr(6) [OF m] al
    have "Constr (Sum (termos_de_credito_scip dd alocacao cs s)) LE (Const (of_int c))
        \<in> set (restricoes m)" by blast
    from feasible_holds [OF f this] ev have "(of_int ?T :: rat) \<le> of_int c" by simp
    then show ?thesis by (simp only: of_int_le_iff)
  qed
qed

lemma creditos_resultado_scip:
  assumes m: "modelo_scip dd minimos n c cs = Inr m" and f: "feasible m (snd (solve m))"
    and st: "fst (solve m) = OPTIMAL \<or> fst (solve m) = FEASIBLE"
    and dist: "distinct (map fst (disciplinas dd))"
    and c0: "0 \<le> c"
    and res: "resolver_grade True solve dd minimos n c cs = Inr [gv, PCreditos cr, sv, ov, tv]"
  shows "map fst cr = [1..n] \<and> list_all (\<lambda>sc. snd sc \<le> c) cr"
proof -
  let ?al = "alocacao_scip dd n cs"
  let ?\<sigma> = "snd (solve m)"
  let ?g0 = "map (\<lambda>s. (s, [])) [1..n] :: (int \<times> disciplina_obj list) list"
  let ?c0 = "map (\<lambda>s. (s, 0)) [1..n] :: (int \<times> int) list"
  from res m st obtain g t where
    fo: "fold (passo_scip dd ?\<sigma>) ?al (Inr (?g0, ?c0, creditos_ja_cursadas dd cs)) = Inr (g, cr, t)"
    by (auto simp add: resolver_grade_def Let_def split: sum.splits)
  have keys: "map fst cr = [1..n]"
    using fold_passo_scip [OF fo] by (simp add: comp_def)
  have bin: "\<And>k. k \<in> set ?al \<Longrightarrow> 0 \<le> ?\<sigma> (chave_var k) \<and> ?\<sigma> (chave_var k) \<le> 1"
    using binarias_scip [OF m f] by simp
  have "snd sc \<le> c" if sc: "sc \<in> set cr" for sc
  proof -
    obtain s total where p: "sc = (s, total)" by (cases sc) auto
    from sc p have "s \<in> set (map fst cr)" by (metis fst_conv image_eqI set_map)
    with keys have sin: "s \<in> set [1..n]" by simp
    have "distinct (map fst cr)" using keys by simp
    with sc p have mc: "map_of cr s = Some total" by simp
    have m0: "map_of ?c0 s = Some 0"
      using sin by (simp add: map_of_map_restrict restrict_map_def)
    from fold_passo_scip [OF fo, of s] mc m0
    have "total = (\<Sum>k\<leftarrow>alocacao_em ?al s.
             if escolhida ?\<sigma> k
             then (case map_of (disciplinas dd) (fst k) of None \<Rightarrow> 0 | Some info \<Rightarrow> creditos info)
             else 0)"
      by simp
    also have "\<dots> = (\<Sum>k\<leftarrow>alocacao_em ?al s.
             case map_of (disciplinas dd) (fst k) of None \<Rightarrow> 0
             | Some info \<Rightarrow> creditos info * ?\<sigma> (chave_var k))"
      by (rule creditos_escolhidos) (rule bin)
    also have "\<dots> = (\<Sum>dc\<leftarrow>disciplinas dd.
            creditos (snd dc) * (\<Sum>k\<leftarrow>vars_de_em ?al (fst dc) s. ?\<sigma> (chave_var k)))"
      by (rule creditos_por_disciplina_e_por_chave [OF dist, symmetric])
    also have "\<dots> \<le> c"
      by (rule limite_creditos_scip [OF m f refl c0 sin])
    finally show ?thesis using p by simp
  qed
  with keys show ?thesis by (simp add: list_all_iff)
qed

section \<open>The decoders raise no exception on the allocation built by the builders\<close>

lemma processar_passo_Inr:
  assumes "has_key g0 (fst (snd k))" and "has_key c0 (fst (snd k))"
  shows "\<exists>g c. processar_passo cfg \<sigma> k (Inr (g0, c0)) = Inr (g, c)
               \<and> map fst g = map fst g0 \<and> map fst c = map fst c0"
proof -
  obtain d s t where k: "k = (d, s, t)" by (cases k) auto
  show ?thesis
  proof (cases "escolhida \<sigma> k \<and> map_of (disciplinas (dados cfg)) d \<noteq> None")
    case False
    then show ?thesis using k by (auto simp add: processar_passo_def)
  next
    case True
    then obtain info where i: "map_of (disciplinas (dados cfg)) d = Some info" by auto
    let ?e = "DisciplinaAlocada (nome info) t (get_list (horarios_por_turma (dados cfg)) t) (creditos info)"
    from assms k obtain g where g: "dict_update s (\<lambda>l. l @ [?e]) g0 = Inr g"
      using dict_update_has_key [of g0 s] by auto
    from assms k obtain c where c: "dict_update s (\<lambda>x. x + creditos info) c0 = Inr c"
      using dict_update_has_key [of c0 s] by auto
    from True i g c k have "processar_passo cfg \<sigma> k (Inr (g0, c0)) = Inr (g, c)"
      by (simp add: processar_passo_def Let_def)
    with dict_update_Inr(1) [OF g] dict_update_Inr(1) [OF c] show ?thesis by blast
  qed
qed

lemma fold_processar_passo_Inr:
  assumes "\<forall>k\<in>set alocacao. has_key g0 (fst (snd k)) \<and> has_key c0 (fst (snd k))"
  shows "\<exists>g c. fold (processar_passo cfg \<sigma>) alocacao (Inr (g0, c0)) = Inr (g, c)"
  using assms
proof (induction alocacao arbitrary: g0 c0)
  case Nil
  then show ?case by simp
next
  case (Cons k alocacao)
  from Cons.prems obtain g1 c1 where
    s: "processar_passo cfg \<sigma> k (Inr (g0, c0)) = Inr (g1, c1)"
    and kg: "map fst g1 = map fst g0" and kc: "map fst c1 = map fst c0"
    using processar_passo_Inr [of g0 k c0 cfg \<sigma>] by auto
  have "\<forall>k\<in>set alocacao. has_key g1 (fst (snd k)) \<and> has_key c1 (fst (snd k))"
    using Cons.prems kg kc by (simp add: has_key_def)
  from Cons.IH [OF this] s show ?case by simp
qed

text \<open>\<open>resolver\<close> always returns a result: every key of the allocation dictionary has
  its term among the keys of the two dictionaries that the decoder fills.\<close>

lemma resolver_retorna: "\<exists>r. resolver lower cfg (st, \<sigma>) = Inr r"
proof -
  let ?al = "criar_alocacao cfg (todas (preparar_disciplinas_a_cursar cfg))"
  let ?g0 = "map (\<lambda>s. (s, [])) (semestres cfg) :: (int \<times> disciplina_alocada list) list"
  let ?c0 = "map (\<lambda>s. (s, 0)) (semestres cfg) :: (int \<times> int) list"
  have "\<forall>k\<in>set ?al. has_key ?g0 (fst (snd k)) \<and> has_key ?c0 (fst (snd k))"
    by (auto simp add: set_criar_alocacao has_key_def semestres_def comp_def)
  from fold_processar_passo_Inr [OF this]
  obtain g c where "fold (processar_passo cfg \<sigma>) ?al (Inr (?g0, ?c0)) = Inr (g, c)" by blast
  then show ?thesis
    by (simp add: resolver_def processar_resultados_def Let_def)
qed

text \<open>
  C6.  In every OPTIMAL or FEASIBLE result, the credit total that the decoder reports for
  each term from the starting term to the last (the sum of the credits of the courses it
  places in that term) is at most \<open>creditos_maximos_por_semestre\<close>.  First conjunct: the
  services (\<open>resolver\<close>); second conjunct: the backend (\<open>resolver_grade\<close>, terms 1 to
  \<open>NUM_SEMESTRES\<close>), for a cap that is not negative.  The catalogue is a dictionary: its
  keys are distinct.
\<close>

theorem limite_creditos_por_semestre:
  "(feasible (construir_modelo lower cfg) \<sigma>
      \<and> distinct (map fst (disciplinas (dados cfg)))
      \<and> (st = OPTIMAL \<or> st = FEASIBLE)
      \<and> resolver lower cfg (st, \<sigma>) = Inr r
    \<longrightarrow> map fst (creditos_por_semestre r) = semestres cfg
        \<and> list_all (\<lambda>sc. snd sc \<le> creditos_maximos_por_semestre cfg) (creditos_por_semestre r))
   \<and> (modelo_scip dd minimos n c cs = Inr m
      \<and> feasible m (snd (solve m))
      \<and> (fst (solve m) = OPTIMAL \<or> fst (solve m) = FEASIBLE)
      \<and> distinct (map fst (disciplinas dd))
      \<and> 0 \<le> c
      \<and> resolver_grade True solve dd minimos n c cs = Inr [gv, PCreditos cr, sv, ov, tv]
    \<longrightarrow> map fst cr = [1..n] \<and> list_all (\<lambda>sc. snd sc \<le> c) cr)"
  using creditos_resultado_servico [of lower cfg \<sigma> st r]
        creditos_resultado_scip [of dd minimos n c cs m solve gv cr sv ov tv]
  by blast

lemma alocacao_scip_B: "alocacao_scip dados_B 2 [] = [(''X'', 1, ''T1''), (''Y'', 2, ''T2'')]"
  by code_simp

lemma resolver_B:
  "resolver ascii_lower config_B (OPTIMAL, sol_B) =
     Inr \<lparr>grade = [(1, [DisciplinaAlocada ''Calculo 1'' ''T1'' [''SEG08''] 4]),
                    (2, [DisciplinaAlocada ''Calculo 2'' ''T2'' [''TER08''] 4])],
          creditos_por_semestre = [(1, 4), (2, 4)],
          status = OPTIMAL, objetivo_value = Some 2\<rparr>"
  by code_simp

lemma resolver_grade_B:
  "\<exists>gv sv ov tv. resolver_grade True (\<lambda>_. (OPTIMAL, sol_B)) dados_B minimos_zero 2 32 [] =
     Inr [gv, PCreditos [(1, 4), (2, 4)], sv, ov, tv]"
proof -
  obtain m where m: "modelo_scip dados_B minimos_zero 2 32 [] = Inr m"
    using modelo_scip_B_feasible by (auto split: sum.splits)
  have "\<exists>g t. fold (passo_scip dados_B sol_B) [(''X'', 1, ''T1''), (''Y'', 2, ''T2'')]
          (Inr (map (\<lambda>s. (s, [])) [1..2], map (\<lambda>s. (s, 0)) [1..2], creditos_ja_cursadas dados_B []))
        = Inr (g, [(1, 4), (2, 4)], t)"
    by (simp add: passo_scip_def escolhida_def sol_B_def chave_var_def dados_B_def
          dict_update_def has_key_def get_list_def Let_def upto.simps)
  then show ?thesis
    using m by (auto simp add: resolver_grade_def alocacao_scip_B Let_def OPTIMAL_def)
qed

theorem limite_creditos_por_semestre_witness:
  "(map fst [(1 :: int, 4 :: int), (2, 4)] = semestres config_B
     \<and> list_all (\<lambda>sc. snd sc \<le> creditos_maximos_por_semestre config_B) [(1 :: int, 4 :: int), (2, 4)])
   \<and> (map fst [(1 :: int, 4 :: int), (2, 4)] = [1..2]
     \<and> list_all (\<lambda>sc. snd sc \<le> 32) [(1 :: int, 4 :: int), (2, 4)])"
proof -
  obtain m where m: "modelo_scip dados_B minimos_zero 2 32 [] = Inr m" and fm: "feasible m sol_B"
    using modelo_scip_B_feasible by (auto split: sum.splits)
  obtain gv sv ov tv where rg:
    "resolver_grade True (\<lambda>_. (OPTIMAL, sol_B)) dados_B minimos_zero 2 32 [] =
       Inr [gv, PCreditos [(1, 4), (2, 4)], sv, ov, tv]"
    using resolver_grade_B by blast
  have d1: "distinct (map fst (disciplinas (dados config_B)))"
    by (simp add: config_B_def dados_B_def)
  have d2: "distinct (map fst (disciplinas dados_B))" by (simp add: dados_B_def)
  from limite_creditos_por_semestre [where lower = ascii_lower and cfg = config_B and \<sigma> = sol_B
      and st = OPTIMAL and dd = dados_B and minimos = minimos_zero and n = 2 and c = 32
      and cs = "[]" and m = m and solve = "\<lambda>_. (OPTIMAL, sol_B)" and gv = gv and sv = sv
      and ov = ov and tv = tv and cr = "[(1, 4), (2, 4)]"
      and r = "\<lparr>grade = [(1, [DisciplinaAlocada ''Calculo 1'' ''T1'' [''SEG08''] 4]),
                    (2, [DisciplinaAlocada ''Calculo 2'' ''T2'' [''TER08''] 4])],
          creditos_por_semestre = [(1, 4), (2, 4)],
          status = OPTIMAL, objetivo_value = Some 2\<rparr>"]
    feasible_servico_B resolver_B m fm rg d1 d2
  show ?thesis by auto
qed

section \<open>Coverage of the required courses\<close>

lemma Semestre_limites_servico:
  assumes "d \<in> set (todas (preparar_disciplinas_a_cursar cfg))"
  shows "(Semestre d, semestre_inicio cfg, num_semestres_total cfg + 1)
           \<in> set (variaveis (construir_modelo lower cfg))"
  using assms by (simp add: variaveis_construir_modelo Let_def variaveis_decisao_def)

lemma ligacao_no_modelo:
  assumes "d \<in> set (todas (preparar_disciplinas_a_cursar cfg))"
  shows "ligacao cfg (criar_alocacao cfg (todas (preparar_disciplinas_a_cursar cfg))) d
           \<in> set (restricoes (construir_modelo lower cfg))"
  using assms by (simp add: restricoes_construir_modelo Let_def restricoes_ligacao_def)

text \<open>A course still to take without any allocation variable leaves the services model
  without solution: its completion term is fixed to \<open>num_semestres_total + 2\<close>, above the
  upper bound \<open>num_semestres_total + 1\<close> of the variable.\<close>

lemma sem_vagas_infactivel_servico:
  assumes d: "d \<in> set (todas (preparar_disciplinas_a_cursar cfg))"
    and v: "vars_de (criar_alocacao cfg (todas (preparar_disciplinas_a_cursar cfg))) d = []"
  shows "\<not> feasible (construir_modelo lower cfg) \<sigma>"
proof
  assume f: "feasible (construir_modelo lower cfg) \<sigma>"
  from feasible_bounds [OF f Semestre_limites_servico [OF d]]
  have b: "\<sigma> (Semestre d) \<le> num_semestres_total cfg + 1" by simp
  from feasible_holds [OF f ligacao_no_modelo [OF d]] v
  have "(of_int (\<sigma> (Semestre d)) :: rat) = of_int (num_semestres_total cfg + 2)"
    by (simp add: ligacao_def Let_def)
  then have "\<sigma> (Semestre d) = num_semestres_total cfg + 2"
    by (simp only: of_int_eq_iff)
  with b show False by simp
qed

lemma cobertura_servico:
  assumes ob: "d \<in> set (obrigatorias_ids (dados cfg))"
    and nc: "d \<notin> set (disciplinas_concluidas_ids cfg)"
    and al: "alocacao = criar_alocacao cfg (todas (preparar_disciplinas_a_cursar cfg))"
  shows "vars_de alocacao d \<noteq> [] \<Longrightarrow>
           Constr (soma_vars (vars_de alocacao d)) EQ (Const 1)
             \<in> set (restricoes (construir_modelo lower cfg))"
    and "vars_de alocacao d = [] \<Longrightarrow>
           d \<in> set (avisos_obrigatorias cfg)
           \<and> Constr (soma_vars (vars_de alocacao d)) EQ (Const 1)
               \<notin> set (fst (adicionar_restricao_obrigatorias
                     (obrigatorias (preparar_disciplinas_a_cursar cfg)) alocacao))
           \<and> \<not> feasible (construir_modelo lower cfg) \<sigma>"
proof -
  have o: "d \<in> set (obrigatorias (preparar_disciplinas_a_cursar cfg))"
    using ob nc by (simp add: preparar_disciplinas_a_cursar_def Let_def)
  then have t: "d \<in> set (todas (preparar_disciplinas_a_cursar cfg))"
    by (simp add: todas_preparar)
  show "vars_de alocacao d \<noteq> [] \<Longrightarrow>
           Constr (soma_vars (vars_de alocacao d)) EQ (Const 1)
             \<in> set (restricoes (construir_modelo lower cfg))"
    using o al by (simp add: restricoes_construir_modelo Let_def obrigatorias_cobertura)
  show "vars_de alocacao d = [] \<Longrightarrow>
           d \<in> set (avisos_obrigatorias cfg)
           \<and> Constr (soma_vars (vars_de alocacao d)) EQ (Const 1)
               \<notin> set (fst (adicionar_restricao_obrigatorias
                     (obrigatorias (preparar_disciplinas_a_cursar cfg)) alocacao))
           \<and> \<not> feasible (construir_modelo lower cfg) \<sigma>"
  proof (intro conjI)
    assume e: "vars_de alocacao d = []"
    show "d \<in> set (avisos_obrigatorias cfg)"
      using o e al by (simp add: avisos_obrigatorias_def Let_def obrigatorias_avisos)
    show "Constr (soma_vars (vars_de alocacao d)) EQ (Const 1)
               \<notin> set (fst (adicionar_restricao_obrigatorias
                     (obrigatorias (preparar_disciplinas_a_cursar cfg)) alocacao))"
      using e by (auto simp add: obrigatorias_restricoes soma_vars_def)
    show "\<not> feasible (construir_modelo lower cfg) \<sigma>"
      using sem_vagas_infactivel_servico [OF t] e al by simp
  qed
qed

lemma cobertura_scip:
  assumes m: "modelo_scip dd minimos n c cs = Inr m"
    and ob: "d \<in> set (obrigatorias_ids dd)"
    and nc: "d \<notin> set cs"
    and al: "alocacao = alocacao_scip dd n cs"
  shows "Constr (soma_vars (vars_de alocacao d)) EQ (Const 1) \<in> set (restricoes m)"
    and "vars_de alocacao d = [] \<Longrightarrow> \<not> feasible m \<sigma>"
proof -
  have "Constr (soma_vars (vars_de alocacao d)) EQ (Const 1)
          \<in> set (restricoes_R1_1 dd alocacao cs)"
    using ob nc by (simp add: restricoes_R1_1_def)
  with modelo_scip_Inr(2) [OF m] al
  show c: "Constr (soma_vars (vars_de alocacao d)) EQ (Const 1) \<in> set (restricoes m)"
    by blast
  show "vars_de alocacao d = [] \<Longrightarrow> \<not> feasible m \<sigma>"
  proof
    assume e: "vars_de alocacao d = []" and f: "feasible m \<sigma>"
    from feasible_holds [OF f c] e show False by (simp add: soma_vars_def)
  qed
qed


section \<open>Results without a solution\<close>

lemma processar_resultados_sem_solucao:
  "st \<noteq> OPTIMAL \<Longrightarrow> st \<noteq> FEASIBLE \<Longrightarrow>
   processar_resultados cfg st \<sigma> obj_val alocacao =
     Inr \<lparr>grade = [], creditos_por_semestre = [], status = st, objetivo_value = None\<rparr>"
  by (simp add: processar_resultados_def)

lemma modelo_scip_A_existe: "\<exists>m. modelo_scip dados_A minimos_zero 2 32 [] = Inr m"
  by (simp add: modelo_scip_def restricoes_R3_def restricao_R3_tipo_def dados_A_def Let_def)

text \<open>
  C7.  When the status returned by the solver is neither OPTIMAL nor FEASIBLE, the
  services decoder (through \<open>resolver\<close>) returns a \<open>GradeResultado\<close> whose term mapping
  and credit mapping are empty, whose status is the solver's and whose objective value is
  \<open>None\<close>; the backend's \<open>resolver_grade\<close> returns the tuple
  \<open>(None, None, status, None, None)\<close>: no term entry, the same status, no objective value.
\<close>

theorem resultado_vazio_sem_solucao:
  assumes "st \<noteq> OPTIMAL" and "st \<noteq> FEASIBLE"
  shows "resolver lower cfg (st, \<sigma>) =
           Inr \<lparr>grade = [], creditos_por_semestre = [], status = st, objetivo_value = None\<rparr>
         \<and> (\<forall>m. modelo_scip dd minimos n c cursadas = Inr m \<longrightarrow> fst (solve m) = st \<longrightarrow>
              resolver_grade True solve dd minimos n c cursadas =
                Inr [PNone, PNone, PInt st, PNone, PNone])"
  using assms
  by (simp add: resolver_def Let_def processar_resultados_sem_solucao resolver_grade_def)

theorem resultado_vazio_sem_solucao_witness:
  "resolver ascii_lower config_A (INFEASIBLE, sol_A) =
     Inr \<lparr>grade = [], creditos_por_semestre = [], status = INFEASIBLE, objetivo_value = None\<rparr>
   \<and> resolver_grade True (\<lambda>_. (INFEASIBLE, sol_A)) dados_A minimos_zero 2 32 [] =
       Inr [PNone, PNone, PInt INFEASIBLE, PNone, PNone]"
proof -
  have a: "INFEASIBLE \<noteq> OPTIMAL" and b: "INFEASIBLE \<noteq> FEASIBLE"
    by (simp_all add: INFEASIBLE_def OPTIMAL_def FEASIBLE_def)
  obtain m where m: "modelo_scip dados_A minimos_zero 2 32 [] = Inr m"
    using modelo_scip_A_existe by blast
  from resultado_vazio_sem_solucao [OF a b, of ascii_lower config_A sol_A dados_A minimos_zero 2 32 "[]"
      "\<lambda>_. (INFEASIBLE, sol_A)"] m
  show ?thesis by simp
qed

section \<open>The tuple returned by the backend and its unpacking\<close>

text \<open>
  C10.  When the SCIP solver cannot be created, \<open>resolver_grade\<close> of the backend returns
  the tuple \<open>(None, None, -1, None)\<close> of four components, whereas every tuple it returns
  once the solver exists has five; the handler of \<open>/optimize\<close> unpacks five values, so
  with the solver missing the unpacking raises \<open>ValueError\<close> and no error response is
  produced.
\<close>

theorem tupla_sem_solver:
  "resolver_grade False solve dd minimos n c cursadas = Inr [PNone, PNone, PInt (- 1), PNone]
   \<and> (\<forall>r. resolver_grade True solve dd minimos n c cursadas = Inr r \<longrightarrow> length r = 5)
   \<and> optimize_schedule (Some dd) False solve taken = Inl ValueError"
  by (auto simp add: resolver_grade_def optimize_schedule_def Let_def
           split: sum.splits if_splits prod.splits)

theorem tupla_sem_solver_witness:
  "resolver_grade False (\<lambda>_. (INFEASIBLE, sol_A)) dados_A minimos_zero 2 32 [] =
     Inr [PNone, PNone, PInt (- 1), PNone]
   \<and> resolver_grade True (\<lambda>_. (INFEASIBLE, sol_A)) dados_A minimos_zero 2 32 [] =
       Inr [PNone, PNone, PInt INFEASIBLE, PNone, PNone]
   \<and> length [PNone, PNone, PInt INFEASIBLE, PNone, PNone] = 5
   \<and> optimize_schedule (Some dados_A) False (\<lambda>_. (INFEASIBLE, sol_A)) [] = Inl ValueError"
proof -
  note t = tupla_sem_solver [of "\<lambda>_. (INFEASIBLE, sol_A)" dados_A minimos_zero 2 32 "[]" "[]"]
  obtain m where m: "modelo_scip dados_A minimos_zero 2 32 [] = Inr m"
    using modelo_scip_A_existe by blast
  have r: "resolver_grade True (\<lambda>_. (INFEASIBLE, sol_A)) dados_A minimos_zero 2 32 [] =
       Inr [PNone, PNone, PInt INFEASIBLE, PNone, PNone]"
    using m by (simp add: resolver_grade_def INFEASIBLE_def OPTIMAL_def FEASIBLE_def)
  from t r show ?thesis by simp
qed

section \<open>The linking constraint\<close>

text \<open>The services builder links the completion term of every course still to take that
  has an allocation variable with the constant \<open>num_semestres_total + 2\<close>.\<close>

lemma ligacao_servico_mais_dois:
  assumes d: "d \<in> set (todas (preparar_disciplinas_a_cursar cfg))"
    and al: "alocacao = criar_alocacao cfg (todas (preparar_disciplinas_a_cursar cfg))"
    and v: "vars_de alocacao d \<noteq> []"
  shows "Constr (Var (Semestre d)) EQ
           (Add (Sum (termos_semestre alocacao d))
                (Mul (of_int (num_semestres_total cfg + 2))
                     (Sub (Const 1) (soma_vars (vars_de alocacao d)))))
         \<in> set (restricoes (construir_modelo lower cfg))"
proof -
  have "ligacao cfg alocacao d \<in> set (restricoes (construir_modelo lower cfg))"
    using ligacao_no_modelo [OF d] al by simp
  with v show ?thesis by (simp add: ligacao_def Let_def)
qed

text \<open>The backend builder links the completion term of every course of the catalogue
  that is not completed with the constant \<open>NUM_SEMESTRES + 1\<close>.\<close>

lemma ligacao_scip_mais_um:
  assumes m: "modelo_scip dd minimos n c cs = Inr m"
    and d: "has_key (disciplinas dd) d" and nc: "d \<notin> set cs"
    and al: "alocacao = alocacao_scip dd n cs"
  shows "Constr (Var (Semestre d)) EQ
           (Add (Sum (termos_semestre alocacao d))
                (Mul (of_int (n + 1)) (Sub (Const 1) (soma_vars (vars_de alocacao d)))))
         \<in> set (restricoes m)"
proof -
  have "ligacao_scip n alocacao d \<in> set (restricoes_R2 dd n alocacao cs)"
    using d nc by (simp add: restricoes_R2_def has_key_def)
  with modelo_scip_Inr(4) [OF m] al have "ligacao_scip n alocacao d \<in> set (restricoes m)"
    by blast
  then show ?thesis by (simp add: ligacao_scip_def)
qed

text \<open>
  C1 on the backend builder, for scenario A with two terms: the linking constraint of
  \<open>X\<close> carries the constant 3, that is \<open>NUM_SEMESTRES + 1\<close>; the constraint with 4, that is
  \<open>NUM_SEMESTRES + 2\<close>, is not in the model.
\<close>

theorem ligacao_scip_constante:
  "(case modelo_scip dados_A minimos_zero 2 32 [] of
      Inl e \<Rightarrow> False
    | Inr m \<Rightarrow>
        Constr (Var (Semestre ''X'')) EQ
          (Add (Sum [Mul 1 (Var (Alocacao ''X'' 1 ''T1''))])
               (Mul 3 (Sub (Const 1) (Sum [Var (Alocacao ''X'' 1 ''T1'')]))))
          \<in> set (restricoes m)
        \<and> Constr (Var (Semestre ''X'')) EQ
          (Add (Sum [Mul 1 (Var (Alocacao ''X'' 1 ''T1''))])
               (Mul 4 (Sub (Const 1) (Sum [Var (Alocacao ''X'' 1 ''T1'')]))))
          \<notin> set (restricoes m))"
  by code_simp

section \<open>Which allocation variables exist\<close>

text \<open>
  C2 on the services builder, for scenario A: \<open>X\<close> is offered in odd terms only, and the
  builder creates its allocation variable for term 2 all the same.
\<close>

theorem alocacao_ignora_paridade:
  "(''X'', 2, ''T1'') \<in> set (criar_alocacao config_A (todas (preparar_disciplinas_a_cursar config_A)))
   \<and> periodos_validos (dados config_A) ''X'' = [1]
   \<and> \<not> oferta_no_semestre (dados config_A) ''X'' 2
   \<and> (''X'', 2, ''T1'') \<notin> set (alocacao_scip dados_A 2 [])"
  by code_simp

text \<open>No builder creates an allocation variable for a completed course.\<close>

lemma concluida_sem_variaveis:
  "d \<in> set (disciplinas_concluidas_ids cfg) \<Longrightarrow>
     vars_de (criar_alocacao cfg (todas (preparar_disciplinas_a_cursar cfg))) d = []"
  "d \<in> set cs \<Longrightarrow> vars_de (alocacao_scip dd n cs) d = []"
  by (auto simp add: vars_de_def filter_empty_conv set_criar_alocacao set_alocacao_scip
        set_todas_preparar)

section \<open>The internship rule\<close>

text \<open>In the backend model, a solution that places the internship in term \<open>s\<close> has at
  least half of the courses of the catalogue completed before: the size of the set of
  completed courses plus the allocations of the other courses in earlier terms.\<close>

lemma estagio_scip:
  assumes m: "modelo_scip dd minimos n c cs = Inr m" and f: "feasible m \<sigma>"
    and al: "alocacao = alocacao_scip dd n cs"
    and k: "(id_estagio, s, t) \<in> set alocacao"
    and one: "\<sigma> (Alocacao id_estagio s t) = 1"
  shows "(of_int (int (length (disciplinas dd))) :: rat) / 2 \<le>
           of_int (int (card (set cs))
                   + (\<Sum>k'\<leftarrow>vars_concluidas_antes dd alocacao cs s. \<sigma> (chave_var k')))"
proof -
  let ?E = "sum_list (map (\<lambda>k. \<sigma> (chave_var k)) (vars_de_em alocacao id_estagio s))"
  let ?M = "int (length (disciplinas dd)) + 1"
  have bin: "\<And>k. k \<in> set alocacao \<Longrightarrow> 0 \<le> \<sigma> (chave_var k) \<and> \<sigma> (chave_var k) \<le> 1"
    using binarias_scip [OF m f] al by simp
  from k al have hk: "has_key (disciplinas dd) id_estagio" and nc: "id_estagio \<notin> set cs"
    and s: "s \<in> set [1..n]"
    by (auto simp add: set_alocacao_scip)
  have kin: "(id_estagio, s, t) \<in> set (vars_de_em alocacao id_estagio s)"
    using k by (simp add: vars_de_em_def)
  then have ne: "vars_de_em alocacao id_estagio s \<noteq> []" by auto
  have nn: "\<forall>k\<in>set (vars_de_em alocacao id_estagio s). 0 \<le> \<sigma> (chave_var k)"
    using bin by (simp add: vars_de_em_def)
  have one': "\<sigma> (chave_var (id_estagio, s, t)) = 1"
    using one by (simp add: chave_var_def)
  have E: "1 \<le> ?E"
    by (rule soma_binarias_ge [OF nn kin one'])
  have "restricao_estagio dd alocacao cs s \<in> set (restricoes_R7 dd n alocacao cs)"
    using hk nc s ne by (simp add: restricoes_R7_def)
  with modelo_scip_Inr(7) [OF m] al have "restricao_estagio dd alocacao cs s \<in> set (restricoes m)"
    by blast
  from feasible_holds [OF f this]
  have h: "(of_int (int (length (disciplinas dd))) :: rat) / 2 - of_int ?M * (1 - of_int ?E)
        \<le> of_int (int (card (set cs)))
          + of_int (\<Sum>k'\<leftarrow>vars_concluidas_antes dd alocacao cs s. \<sigma> (chave_var k'))"
    by (simp add: restricao_estagio_def Let_def eval_soma_vars)
  have "(of_int ?M :: rat) * (1 - of_int ?E) \<le> 0"
  proof (rule mult_nonneg_nonpos)
    show "(0 :: rat) \<le> of_int ?M" by simp
    from E have "(1 :: rat) \<le> of_int ?E" by (simp only: of_int_1_le_iff)
    then show "(1 :: rat) - of_int ?E \<le> 0" by simp
  qed
  with h show ?thesis by simp
qed

text \<open>
  C4 on the services builder, for scenario D: the assignment that places \<open>X\<close> and the
  internship \<open>EEWU00\<close> both in term 1 respects every bound and constraint of the services
  model, although nothing is completed and no course is placed before term 1, so that the
  internship constraint of the backend for term 1 does not hold (0 courses, half of the
  catalogue is 1).
\<close>

theorem estagio_sem_regra_servico:
  "feasible (construir_modelo ascii_lower config_E) sol_E1
   \<and> sol_E1 (Alocacao ''EEWU00'' 1 ''TE'') = 1
   \<and> \<not> holds sol_E1
         (restricao_estagio (dados config_E)
            (criar_alocacao config_E (todas (preparar_disciplinas_a_cursar config_E)))
            (disciplinas_concluidas_ids config_E) 1)
   \<and> (case modelo_scip dados_E minimos_zero 2 32 [] of
         Inl e \<Rightarrow> False
       | Inr m \<Rightarrow> \<not> feasible m sol_E1 \<and> feasible m sol_E)"
  by code_simp

section \<open>Categories from labels\<close>

text \<open>The two classifiers agree on every record whose id does not start with
  \<open>ARTIFICIAL\<close> and whose lower-cased label does not start with \<open>artificial\<close>.\<close>

lemma parse_tipo_categoria_de:
  assumes "\<not> prefix ''ARTIFICIAL'' (fst data)"
    and "\<not> prefix ''artificial'' (lower (case tipo (snd data) of None \<Rightarrow> [] | Some x \<Rightarrow> x))"
  shows "tipo_de (from_dict lower data) =
           (case categoria_de lower data of
              None \<Rightarrow> OUTRA
            | Some Obrigatorias \<Rightarrow> OBRIGATORIA
            | Some Restritas \<Rightarrow> RESTRITA
            | Some Condicionadas \<Rightarrow> CONDICIONADA
            | Some Livres \<Rightarrow> LIVRE)"
  using assms by (simp add: from_dict_def parse_tipo_def categoria_de_def Let_def)

text \<open>
  C8 on \<open>Disciplina.from_dict\<close>: a record whose id starts with \<open>ARTIFICIAL\<close> and whose
  label names no category goes to the free electives in \<open>_categorizar_disciplinas\<close>, and
  gets the type \<open>OUTRA\<close> from \<open>_parse_tipo\<close>, which tests the label, not the id, for the
  prefix.
\<close>

theorem parse_tipo_prefixo_do_rotulo:
  "categoria_de ascii_lower registro_artificial = Some Livres
   \<and> categorizar_disciplinas ascii_lower [registro_artificial] Livres = [''ARTIFICIAL01'']
   \<and> tipo_de (from_dict ascii_lower registro_artificial) = OUTRA"
  by (simp add: categoria_de_def categorizar_disciplinas_def from_dict_def parse_tipo_def
        registro_artificial_def ascii_lower_def str_periodo_acento_def Let_def
        sublist_Cons_right)

section \<open>Terms without courses\<close>

text \<open>The services decoder keeps no term with an empty list of courses.\<close>

lemma grade_sem_semestres_vazios:
  assumes "resolver lower cfg (st, \<sigma>) = Inr r"
  shows "list_all (\<lambda>sg. snd sg \<noteq> []) (grade r)"
  using assms
  by (auto simp add: resolver_def processar_resultados_def Let_def list_all_iff
           split: if_splits sum.splits)

text \<open>
  C9 on the backend, for scenario A with two terms and \<open>X\<close> placed in term 1: the
  returned mapping keeps term 2 with an empty list of courses.
\<close>

theorem grade_scip_semestre_vazio:
  "\<exists>c sv ov tv.
     resolver_grade True (\<lambda>_. (OPTIMAL, sol_A)) dados_A minimos_zero 2 32 [] =
       Inr [PGrade [(1, [DisciplinaObj ''X'' ''Calculo'' ''T1'' [''SEG08''] 4 (Some ''1 Periodo'')]),
                    (2, [])],
            c, sv, ov, tv]"
proof -
  obtain m where m: "modelo_scip dados_A minimos_zero 2 32 [] = Inr m"
    using modelo_scip_A_existe by blast
  have a: "alocacao_scip dados_A 2 [] = [(''X'', 1, ''T1'')]" by code_simp
  have "\<exists>c t. fold (passo_scip dados_A sol_A) [(''X'', 1, ''T1'')]
          (Inr (map (\<lambda>s. (s, [])) [1..2], map (\<lambda>s. (s, 0)) [1..2], creditos_ja_cursadas dados_A []))
        = Inr ([(1, [DisciplinaObj ''X'' ''Calculo'' ''T1'' [''SEG08''] 4 (Some ''1 Periodo'')]),
                (2, [])], c, t)"
    by (simp add: passo_scip_def escolhida_def sol_A_def chave_var_def dados_A_def
          dict_update_def has_key_def get_list_def Let_def upto.simps)
  then show ?thesis
    using m by (auto simp add: resolver_grade_def a Let_def OPTIMAL_def)
qed

end
